theory Spec2Isabelle
  imports Complex_Main
begin

section \<open>JavaScript strings\<close>

text \<open>
  A JavaScript string is a sequence of UTF-16 code units; \<open>length\<close>, \<open>includes\<close>,
  \<open>split\<close> and \<open>slice\<close> all count code units. A string is therefore a list of
  natural numbers (each below 65536), and \<open>asc\<close> embeds an ASCII literal. Code units
  outside ASCII are written by number: 225 is a-acute, 227 a-tilde, 231 c-cedilla,
  233 e-acute, 234 e-circumflex, 237 i-acute, 243 o-acute, 244 o-circumflex,
  245 o-tilde, 250 u-acute.
\<close>

type_synonym jsstring = "nat list"

definition asc :: "string \<Rightarrow> jsstring" where
  "asc s = map of_char s"

text \<open>
  \<open>String.prototype.toLowerCase\<close> on every code unit whose lower case lies in the Basic
  Latin or Latin-1 Supplement block, the blocks that hold every letter of the program's
  own texts: A-Z and the accented capitals 192-222 (except the multiplication sign 215)
  move up by 32, and the four capitals outside these blocks whose small letter lies in
  them go there (376 to y-diaeresis 255, 7838 to sharp s 223, the Kelvin sign 8490 to k
  107, the Angstrom sign 8491 to a-ring 229). Left as they are: the capital I with dot
  (304), whose lower case is two code units, and the capitals of other scripts.
\<close>

definition lower_unit :: "nat \<Rightarrow> nat" where
  "lower_unit c =
     (if 65 \<le> c \<and> c \<le> 90 then c + 32
      else if 192 \<le> c \<and> c \<le> 222 \<and> c \<noteq> 215 then c + 32
      else if c = 376 then 255
      else if c = 7838 then 223
      else if c = 8490 then 107
      else if c = 8491 then 229
      else c)"

definition toLowerCase :: "jsstring \<Rightarrow> jsstring" where
  "toLowerCase s = map lower_unit s"

text \<open>\<open>s.includes(t)\<close>: \<open>t\<close> occurs in \<open>s\<close> as a contiguous run of code units.\<close>

fun starts_with :: "jsstring \<Rightarrow> jsstring \<Rightarrow> bool" where
  "starts_with s [] = True"
| "starts_with [] (t # ts) = False"
| "starts_with (c # cs) (t # ts) = (c = t \<and> starts_with cs ts)"

fun string_includes :: "jsstring \<Rightarrow> jsstring \<Rightarrow> bool" where
  "string_includes [] t = (t = [])"
| "string_includes (c # cs) t = (starts_with (c # cs) t \<or> string_includes cs t)"

text \<open>
  The regular expression class \<open>\s\<close>: tab, line feed, vertical tab, form feed, carriage
  return, space, no-break space, the Unicode space separators, the line and paragraph
  separators and the byte order mark.
\<close>

definition is_space :: "nat \<Rightarrow> bool" where
  "is_space c =
     (c \<in> set [9, 10, 11, 12, 13, 32, 160, 5760, 8232, 8233, 8239, 8287, 12288, 65279]
      \<or> (8192 \<le> c \<and> c \<le> 8202))"

text \<open>
  \<open>s.split(/\s+/)\<close>: the pieces of \<open>s\<close> between maximal runs of white space. A run
  at the start or at the end of the string leaves an empty piece there, and the empty
  string splits into one empty piece.
\<close>

fun split_ws :: "jsstring \<Rightarrow> jsstring list" where
  "split_ws [] = [[]]"
| "split_ws (c # cs) =
     (if is_space c
      then (if cs \<noteq> [] \<and> is_space (hd cs) then split_ws cs else [] # split_ws cs)
      else (case split_ws cs of [] \<Rightarrow> [[c]] | w # ws \<Rightarrow> (c # w) # ws))"

text \<open>\<open>xs.join(sep)\<close> on an array of strings.\<close>

fun join :: "jsstring \<Rightarrow> jsstring list \<Rightarrow> jsstring" where
  "join sep [] = []"
| "join sep [x] = x"
| "join sep (x # y # ys) = x @ sep @ join sep (y # ys)"

section \<open>JavaScript values\<close>

text \<open>
  The values a parsed JSON body can hold, and undefined for a property that is missing.
  A number is a double: a finite one, an infinity (from a literal too large for a double)
  or NaN (which only arithmetic gives). An object or an array is known by the string it
  converts to.
\<close>

datatype js_number = Finite real | PlusInfinity | MinusInfinity | NaN

datatype jsvalue =
  JSUndefined | JSNull | JSBoolean bool | JSNumber js_number | JSString jsstring
| JSObject jsstring

text \<open>
  The conversion to a boolean that \<open>||\<close> applies: undefined, null, false, zero, NaN and the
  empty string are false, every other value is true.
\<close>

fun truthy :: "jsvalue \<Rightarrow> bool" where
  "truthy JSUndefined = False"
| "truthy JSNull = False"
| "truthy (JSBoolean b) = b"
| "truthy (JSNumber (Finite x)) = (x \<noteq> 0)"
| "truthy (JSNumber PlusInfinity) = True"
| "truthy (JSNumber MinusInfinity) = True"
| "truthy (JSNumber NaN) = False"
| "truthy (JSString s) = (s \<noteq> [])"
| "truthy (JSObject s) = True"

text \<open>
  The operator \<open>+\<close>. When neither operand is a string, an object or an array, both are
  converted to numbers (undefined to NaN, null to 0, true to 1, false to 0) and added;
  otherwise both are converted to strings and concatenated. The sum of two finite doubles
  (\<open>add\<close>, which rounds and can overflow) and the decimal text of a finite double (\<open>show\<close>)
  belong to the runtime and are parameters here.
\<close>

fun numeric_operand :: "jsvalue \<Rightarrow> js_number option" where
  "numeric_operand JSUndefined = Some NaN"
| "numeric_operand JSNull = Some (Finite 0)"
| "numeric_operand (JSBoolean b) = Some (Finite (if b then 1 else 0))"
| "numeric_operand (JSNumber n) = Some n"
| "numeric_operand (JSString s) = None"
| "numeric_operand (JSObject s) = None"

fun number_add :: "(real \<Rightarrow> real \<Rightarrow> js_number) \<Rightarrow> js_number \<Rightarrow> js_number \<Rightarrow> js_number" where
  "number_add add NaN y = NaN"
| "number_add add x NaN = NaN"
| "number_add add (Finite x) (Finite y) = add x y"
| "number_add add PlusInfinity MinusInfinity = NaN"
| "number_add add MinusInfinity PlusInfinity = NaN"
| "number_add add PlusInfinity y = PlusInfinity"
| "number_add add MinusInfinity y = MinusInfinity"
| "number_add add (Finite x) y = y"

fun to_string :: "(real \<Rightarrow> jsstring) \<Rightarrow> jsvalue \<Rightarrow> jsstring" where
  "to_string show JSUndefined = asc ''undefined''"
| "to_string show JSNull = asc ''null''"
| "to_string show (JSBoolean b) = (if b then asc ''true'' else asc ''false'')"
| "to_string show (JSNumber (Finite x)) = show x"
| "to_string show (JSNumber PlusInfinity) = asc ''Infinity''"
| "to_string show (JSNumber MinusInfinity) = asc ''-Infinity''"
| "to_string show (JSNumber NaN) = asc ''NaN''"
| "to_string show (JSString s) = s"
| "to_string show (JSObject s) = s"

definition js_plus ::
  "(real \<Rightarrow> real \<Rightarrow> js_number) \<Rightarrow> (real \<Rightarrow> jsstring) \<Rightarrow> jsvalue \<Rightarrow> jsvalue \<Rightarrow> jsvalue" where
  "js_plus add show a b =
     (case (numeric_operand a, numeric_operand b) of
        (Some x, Some y) \<Rightarrow> JSNumber (number_add add x y)
      | _ \<Rightarrow> JSString (to_string show a @ to_string show b))"

section \<open>Keyword extractor\<close>

definition financialTerms :: "jsstring list" where
  "financialTerms =
     [asc ''WINFUT'', asc ''INDFUT'', asc ''DOLFUT'', asc ''WDOFUT'', asc ''BITFUT'',
      asc ''bovespa'', asc ''ibovespa'', asc ''futuros'', asc ''day trade'', asc ''swing trade'',
      asc ''scalping'', asc ''breakout'', asc ''support'', asc ''resistance'', asc ''macd'',
      asc ''rsi'', asc ''bollinger'', asc ''fibonacci'', asc ''candlestick'', asc ''volume'',
      asc ''an'' @ [225] @ asc ''lise t'' @ [233] @ asc ''cnica'',
      asc ''an'' @ [225] @ asc ''lise fundamentalista'']"

definition is_keyword :: "jsstring \<Rightarrow> bool" where
  "is_keyword word =
     (list_ex (\<lambda>term. string_includes (toLowerCase term) word \<or> string_includes word (toLowerCase term))
        financialTerms
      \<or> length word > 4)"

definition extractKeywords :: "jsstring \<Rightarrow> jsstring list" where
  "extractKeywords text = take 10 (filter is_keyword (split_ws (toLowerCase text)))"

section \<open>Modes, provider profiles and instruction templates\<close>

text \<open>
  The chat route admits a request only when its mode is one of the four strings
  \<open>consulta\<close>, \<open>daytrade\<close>, \<open>portfolio\<close>, \<open>robot\<close>, so the mode is an enumeration.
\<close>

datatype mode = Consulta | Daytrade | Portfolio | Robot

record provider_profile =
  url :: jsstring
  model_name :: jsstring
  maxTokens :: nat

text \<open>The table \<open>this.providers\<close>, keyed by provider id.\<close>

definition providers :: "(jsstring \<times> provider_profile) list" where
  "providers =
     [(asc ''openai'',
       \<lparr>url = asc ''https://api.openai.com/v1/chat/completions'',
        model_name = asc ''gpt-4-turbo-preview'', maxTokens = 4000\<rparr>),
      (asc ''claude'',
       \<lparr>url = asc ''https://api.anthropic.com/v1/messages'',
        model_name = asc ''claude-3-sonnet-20240229'', maxTokens = 4000\<rparr>),
      (asc ''deepseek'',
       \<lparr>url = asc ''https://api.deepseek.com/v1/chat/completions'',
        model_name = asc ''deepseek-chat'', maxTokens = 4000\<rparr>)]"

text \<open>
  The instruction templates of \<open>this.financialPrompts\<close>. Each is a template literal of
  four lines; the continuation lines keep the twelve spaces of the source's indentation.
\<close>

definition prompt_consulta :: jsstring where
  "prompt_consulta =
   join [10]
     [asc ''Voc'' @ [234] @ asc '' '' @ [233]
        @ asc '' um analista financeiro especializado no mercado brasileiro. '',
      asc ''            Forne'' @ [231] @ asc ''a an'' @ [225] @ asc ''lises t'' @ [233]
        @ asc ''cnicas e fundamentalistas precisas, sempre baseadas em dados ''
        @ asc ''reais quando poss'' @ [237] @ asc ''vel.'',
      asc ''            Use termos t'' @ [233] @ asc ''cnicos adequados e seja espec''
        @ [237] @ asc ''fico em suas recomenda'' @ [231, 245] @ asc ''es.'',
      asc ''            Sempre inclua disclaimers sobre riscos de investimento.'']"

definition prompt_daytrade :: jsstring where
  "prompt_daytrade =
   join [10]
     [asc ''Voc'' @ [234] @ asc '' '' @ [233]
        @ asc '' um especialista em day trade focado nos futuros da B3 (WINFUT, ''
        @ asc ''INDFUT, DOLFUT, WDOFUT, BITFUT).'',
      asc ''            Forne'' @ [231] @ asc ''a an'' @ [225] @ asc ''lises t'' @ [233]
        @ asc ''cnicas espec'' @ [237]
        @ asc ''ficas com pontos de entrada, stop loss e alvos.'',
      asc ''            Considere volume, padr'' @ [245]
        @ asc ''es de candlestick e indicadores t'' @ [233] @ asc ''cnicos.'',
      asc ''            Seja preciso com n'' @ [237] @ asc ''veis de pre'' @ [231]
        @ asc ''o e sempre mencione o gerenciamento de risco.'']"

definition prompt_portfolio :: jsstring where
  "prompt_portfolio =
   join [10]
     [asc ''Voc'' @ [234] @ asc '' '' @ [233]
        @ asc '' um consultor de investimentos especializado em otimiza'' @ [231, 227]
        @ asc ''o de portf'' @ [243] @ asc ''lios.'',
      asc ''            Analise diversifica'' @ [231, 227] @ asc ''o, correla'' @ [231, 245]
        @ asc ''es entre ativos e perfil de risco.'',
      asc ''            Forne'' @ [231] @ asc ''a recomenda'' @ [231, 245]
        @ asc ''es de aloca'' @ [231, 227] @ asc ''o baseadas em teoria moderna de portf''
        @ [243] @ asc ''lio.'',
      asc ''            Considere o cen'' @ [225] @ asc ''rio macroecon'' @ [244]
        @ asc ''mico brasileiro e global.'']"

definition prompt_robot :: jsstring where
  "prompt_robot =
   join [10]
     [asc ''Voc'' @ [234] @ asc '' '' @ [233]
        @ asc '' um programador especializado em desenvolvimento de rob'' @ [244]
        @ asc ''s de trading para a plataforma Nelogica.'',
      asc ''            Use a linguagem NTFL (Nelogica Trading Formula Language).'',
      asc ''            Forne'' @ [231] @ asc ''a c'' @ [243]
        @ asc ''digo limpo, comentado e test'' @ [225] @ asc ''vel.'',
      asc ''            Inclua explica'' @ [231, 245] @ asc ''es sobre a l'' @ [243]
        @ asc ''gica da estrat'' @ [233] @ asc ''gia e par'' @ [226]
        @ asc ''metros de configura'' @ [231, 227] @ asc ''o.'']"

fun financialPrompts :: "mode \<Rightarrow> jsstring" where
  "financialPrompts Consulta = prompt_consulta"
| "financialPrompts Daytrade = prompt_daytrade"
| "financialPrompts Portfolio = prompt_portfolio"
| "financialPrompts Robot = prompt_robot"

section \<open>The store\<close>

text \<open>
  The SQLite tables the service touches. \<open>users\<close> is keyed by its integer primary key;
  \<open>financial_knowledge\<close> and \<open>api_logs\<close> are kept in insertion order. Nullable columns
  are options. A call to the store either completes or is rejected with an error; \<open>faults\<close>
  says which of the coming calls are rejected (\<open>True\<close>: the next call fails), each call
  taking the head of the list, and no entry meaning that the call completes.
\<close>

datatype js_error = DatabaseError | RequestError | TypeError

record account =
  plan :: jsstring
  credits :: int

record api_log =
  log_user_id :: nat
  log_endpoint :: jsstring
  log_method :: jsstring
  log_status_code :: nat

record knowledge_row =
  row_category :: jsstring
  row_subcategory :: "jsstring option"
  row_title :: jsstring
  row_content :: jsstring
  row_tags :: "jsstring option"
  row_relevance_score :: real

text \<open>A row as the knowledge query selects it: title, content, category, subcategory.\<close>

record knowledge_item =
  title :: jsstring
  item_content :: jsstring
  category :: jsstring
  subcategory :: "jsstring option"

record database =
  users :: "nat \<rightharpoonup> account"
  api_logs :: "api_log list"
  financial_knowledge :: "knowledge_row list"
  faults :: "bool list"

definition next_fault :: "database \<Rightarrow> bool \<times> database" where
  "next_fault db =
     (case faults db of [] \<Rightarrow> (False, db) | f # fs \<Rightarrow> (f, db\<lparr>faults := fs\<rparr>))"

text \<open>
  The store reads a text as a sequence of characters: a character is one code unit, or
  the two code units of a surrogate pair.
\<close>

definition is_high_surrogate :: "nat \<Rightarrow> bool" where
  "is_high_surrogate c = (55296 \<le> c \<and> c \<le> 56319)"

definition is_low_surrogate :: "nat \<Rightarrow> bool" where
  "is_low_surrogate c = (56320 \<le> c \<and> c \<le> 57343)"

fun characters :: "jsstring \<Rightarrow> jsstring list" where
  "characters [] = []"
| "characters [c] = [[c]]"
| "characters (c # d # cs) =
     (if is_high_surrogate c \<and> is_low_surrogate d then [c, d] # characters cs
      else [c] # characters (d # cs))"

text \<open>
  The SQL operator \<open>LIKE\<close> of SQLite: in the pattern, the percent sign (37) stands for
  any run of characters and the underscore (95) for any one character; every other
  character stands for itself, the letters A-Z and a-z regardless of case.
\<close>

definition ascii_fold :: "nat \<Rightarrow> nat" where
  "ascii_fold c = (if 65 \<le> c \<and> c \<le> 90 then c + 32 else c)"

fun like_characters :: "jsstring list \<Rightarrow> jsstring list \<Rightarrow> bool" where
  "like_characters [] [] = True"
| "like_characters [] (c # cs) = False"
| "like_characters (p # ps) [] = (p = [37] \<and> like_characters ps [])"
| "like_characters (p # ps) (c # cs) =
     (if p = [37] then like_characters ps (c # cs) \<or> like_characters (p # ps) cs
      else (p = [95] \<or> map ascii_fold p = map ascii_fold c) \<and> like_characters ps cs)"

definition sql_like :: "jsstring \<Rightarrow> jsstring \<Rightarrow> bool" where
  "sql_like pat text = like_characters (characters pat) (characters text)"

definition select_item :: "knowledge_row \<Rightarrow> knowledge_item" where
  "select_item r =
     \<lparr>title = row_title r, item_content = row_content r,
      category = row_category r, subcategory = row_subcategory r\<rparr>"

text \<open>
  The query of \<open>searchKnowledge\<close>, whose three parameters are the same pattern:
  \<^verbatim>\<open>SELECT title, content, category, subcategory FROM financial_knowledge
  WHERE (title LIKE ? OR content LIKE ? OR tags LIKE ?)
  ORDER BY relevance_score DESC LIMIT 5\<close>.
  A null \<open>tags\<close> matches nothing. Rows of equal score stay in table order.
\<close>

definition knowledge_query :: "jsstring \<Rightarrow> knowledge_row list \<Rightarrow> knowledge_item list" where
  "knowledge_query pat rows =
     map select_item
       (take 5
          (sort_key (\<lambda>r. - row_relevance_score r)
             (filter
                (\<lambda>r. sql_like pat (row_title r) \<or> sql_like pat (row_content r)
                   \<or> (case row_tags r of None \<Rightarrow> False | Some t \<Rightarrow> sql_like pat t))
                rows)))"

definition database_all_knowledge ::
  "database \<Rightarrow> jsstring \<Rightarrow> (js_error + knowledge_item list) \<times> database" where
  "database_all_knowledge db pat =
     (case next_fault db of
        (True, db') \<Rightarrow> (Inl DatabaseError, db')
      | (False, db') \<Rightarrow> (Inr (knowledge_query pat (financial_knowledge db')), db'))"

text \<open>\<open>SELECT plan, credits FROM users WHERE id = ?\<close>: the row, or undefined.\<close>

definition database_get_user ::
  "database \<Rightarrow> nat \<Rightarrow> (js_error + account option) \<times> database" where
  "database_get_user db uid =
     (case next_fault db of
        (True, db') \<Rightarrow> (Inl DatabaseError, db')
      | (False, db') \<Rightarrow> (Inr (users db' uid), db'))"

text \<open>\<open>UPDATE users SET credits = credits - 1 WHERE id = ?\<close>.\<close>

definition database_decrement_credits ::
  "database \<Rightarrow> nat \<Rightarrow> (js_error + unit) \<times> database" where
  "database_decrement_credits db uid =
     (case next_fault db of
        (True, db') \<Rightarrow> (Inl DatabaseError, db')
      | (False, db') \<Rightarrow>
          (Inr (),
           (case users db' uid of
              None \<Rightarrow> db'
            | Some a \<Rightarrow> db'\<lparr>users := (users db')(uid \<mapsto> a\<lparr>credits := credits a - 1\<rparr>)\<rparr>)))"

text \<open>
  \<open>INSERT INTO api_logs (user_id, endpoint, method, status_code) VALUES (?, ?, ?, ?)\<close>.
\<close>

definition database_insert_log ::
  "database \<Rightarrow> api_log \<Rightarrow> (js_error + unit) \<times> database" where
  "database_insert_log db entry =
     (case next_fault db of
        (True, db') \<Rightarrow> (Inl DatabaseError, db')
      | (False, db') \<Rightarrow> (Inr (), db'\<lparr>api_logs := api_logs db' @ [entry]\<rparr>))"

section \<open>Knowledge retriever\<close>

text \<open>
  The pattern is \<open>%\<close>, the keywords joined by \<open>%\<close>, and \<open>%\<close>. Whatever the store
  raises is caught and the empty array returned. The mode is not used.
\<close>

definition searchKnowledge ::
  "database \<Rightarrow> jsstring \<Rightarrow> mode \<Rightarrow> knowledge_item list \<times> database" where
  "searchKnowledge db query mode =
     (let keywords = extractKeywords query;
          pat = [37] @ join [37] keywords @ [37]
      in case database_all_knowledge db pat of
           (Inl error, db') \<Rightarrow> ([], db')
         | (Inr knowledge, db') \<Rightarrow> (knowledge, db'))"

section \<open>Context assembler\<close>

text \<open>
  The conversation history is an array the caller owns, so it is passed by reference:
  the heap maps a reference to the turns of the array it names, and \<open>next_free\<close> is the
  first reference not yet in use. \<open>history.slice(-5)\<close> allocates a new array holding
  the last five elements (all of them when there are fewer).
\<close>

record turn =
  role :: jsstring
  turn_content :: jsstring

record heap =
  arrays :: "nat \<Rightarrow> turn list"
  next_free :: nat

definition array_slice_last :: "heap \<Rightarrow> nat \<Rightarrow> nat \<Rightarrow> nat \<times> heap" where
  "array_slice_last hp a n =
     (let xs = arrays hp a;
          r = next_free hp
      in (r, hp\<lparr>arrays := (arrays hp)(r := drop (length xs - n) xs), next_free := Suc r\<rparr>))"

definition add_knowledge_line :: "jsstring \<Rightarrow> knowledge_item \<Rightarrow> jsstring" where
  "add_knowledge_line context item =
     context @ asc ''- '' @ title item @ asc '': '' @ item_content item @ [10]"

definition add_history_line :: "jsstring \<Rightarrow> turn \<Rightarrow> jsstring" where
  "add_history_line context msg =
     context @ role msg @ asc '': '' @ turn_content msg @ [10]"

definition buildContext ::
  "heap \<Rightarrow> jsstring \<Rightarrow> mode \<Rightarrow> knowledge_item list \<Rightarrow> nat \<Rightarrow> jsstring \<times> heap" where
  "buildContext hp message mode knowledge history =
     (let context0 = financialPrompts mode @ [10, 10];
          context1 =
            (if length knowledge > 0
             then foldl add_knowledge_line
                    (context0 @ asc ''Conhecimento relevante:'' @ [10]) knowledge @ [10]
             else context0);
          (context2, hp2) =
            (if length (arrays hp history) > 0
             then (case array_slice_last hp history 5 of
                     (recentHistory, hp1) \<Rightarrow>
                       (foldl add_history_line
                          (context1 @ asc ''Contexto da conversa:'' @ [10])
                          (arrays hp1 recentHistory) @ [10],
                        hp1))
             else (context1, hp))
      in (context2 @ asc ''Pergunta do usu'' @ [225] @ asc ''rio: '' @ message
            @ [10, 10] @ asc ''Resposta:'',
          hp2))"

section \<open>Provider selector\<close>

definition selectProvider :: "jsstring \<Rightarrow> mode \<Rightarrow> jsstring" where
  "selectProvider message mode =
     (if mode = Robot
         \<or> string_includes (toLowerCase message) (asc ''c'' @ [243] @ asc ''digo'')
         \<or> string_includes (toLowerCase message) (asc ''ntfl'')
      then asc ''openai''
      else if mode = Daytrade
         \<or> string_includes (toLowerCase message)
              (asc ''an'' @ [225] @ asc ''lise t'' @ [233] @ asc ''cnica'')
      then asc ''claude''
      else if string_includes (toLowerCase message) (asc ''previs'' @ [227] @ asc ''o'')
         \<or> string_includes (toLowerCase message) (asc ''tend'' @ [234] @ asc ''ncia'')
      then asc ''deepseek''
      else asc ''openai'')"

section \<open>Provider dispatcher\<close>

text \<open>
  What a provider call returns: \<open>{content, tokensUsed}\<close>, each whatever value the body
  holds at that place, undefined when the property is missing. Nothing checks that the
  content is a string or the count a number.
\<close>

record ai_response =
  resp_content :: jsvalue
  resp_tokensUsed :: jsvalue

text \<open>
  The bodies the three endpoints answer with, every property optional and the values at
  the leaves (\<open>content\<close>, \<open>text\<close> and the token counts) of any kind. OpenAI and
  DeepSeek answer \<open>{choices: [{message: {content}}], usage: {total_tokens}}\<close>, Anthropic
  \<open>{content: [{text}], usage: {input_tokens, output_tokens}}\<close>.
\<close>

datatype chat_message = ChatMessage (message_content: jsvalue)
datatype chat_choice = ChatChoice (choice_message: "chat_message option")
datatype chat_usage = ChatUsage (total_tokens: jsvalue)
datatype chat_completion =
  ChatCompletion (choices: "chat_choice list option") (usage: "chat_usage option")

datatype claude_block = ClaudeBlock (block_text: jsvalue)
datatype claude_usage = ClaudeUsage (input_tokens: jsvalue) (output_tokens: jsvalue)
datatype claude_message =
  ClaudeMessage (message_blocks: "claude_block list option") (message_usage: "claude_usage option")

text \<open>
  The world outside the service during one request: what each endpoint answers to a
  prompt (\<open>axios.post\<close> rejects on a transport error and on a status outside 2xx), the
  number \<open>Math.random()\<close> returns, which lies in the interval from 0 (included) to 1
  (excluded), and the runtime's arithmetic on doubles: the sum of two finite doubles and
  the decimal text of one.
\<close>

record environment =
  openai_api :: "jsstring \<Rightarrow> js_error + chat_completion"
  claude_api :: "jsstring \<Rightarrow> js_error + claude_message"
  deepseek_api :: "jsstring \<Rightarrow> js_error + chat_completion"
  math_random :: real
  double_add :: "real \<Rightarrow> real \<Rightarrow> js_number"
  double_to_string :: "real \<Rightarrow> jsstring"

text \<open>
  Reading a property of an undefined value raises a TypeError: so do a body without
  \<open>choices\<close>, an empty \<open>choices\<close>, a choice without \<open>message\<close> and a body without
  \<open>usage\<close>. A missing \<open>content\<close> or \<open>total_tokens\<close> raises nothing and is passed on
  as undefined. The Anthropic count is \<open>usage.input_tokens + usage.output_tokens\<close>.
\<close>

definition read_chat_completion :: "chat_completion \<Rightarrow> js_error + ai_response" where
  "read_chat_completion data =
     (case choices data of
        None \<Rightarrow> Inl TypeError
      | Some [] \<Rightarrow> Inl TypeError
      | Some (c # cs) \<Rightarrow>
          (case choice_message c of
             None \<Rightarrow> Inl TypeError
           | Some m \<Rightarrow>
               (case usage data of
                  None \<Rightarrow> Inl TypeError
                | Some u \<Rightarrow>
                    Inr \<lparr>resp_content = message_content m,
                         resp_tokensUsed = total_tokens u\<rparr>)))"

definition callOpenAI :: "environment \<Rightarrow> jsstring \<Rightarrow> js_error + ai_response" where
  "callOpenAI env context =
     (case openai_api env context of
        Inl error \<Rightarrow> Inl error
      | Inr data \<Rightarrow> read_chat_completion data)"

definition callClaude :: "environment \<Rightarrow> jsstring \<Rightarrow> js_error + ai_response" where
  "callClaude env context =
     (case claude_api env context of
        Inl error \<Rightarrow> Inl error
      | Inr data \<Rightarrow>
          (case message_blocks data of
             None \<Rightarrow> Inl TypeError
           | Some [] \<Rightarrow> Inl TypeError
           | Some (b # bs) \<Rightarrow>
               (case message_usage data of
                  None \<Rightarrow> Inl TypeError
                | Some u \<Rightarrow>
                    Inr \<lparr>resp_content = block_text b,
                         resp_tokensUsed =
                           js_plus (double_add env) (double_to_string env)
                             (input_tokens u) (output_tokens u)\<rparr>)))"

definition callDeepSeek :: "environment \<Rightarrow> jsstring \<Rightarrow> js_error + ai_response" where
  "callDeepSeek env context =
     (case deepseek_api env context of
        Inl error \<Rightarrow> Inl error
      | Inr data \<Rightarrow> read_chat_completion data)"

text \<open>The two canned analyses of \<open>getMockResponse\<close>.\<close>

definition mock_content_0 :: jsstring where
  "mock_content_0 =
   join [10]
     [asc ''Baseado na an'' @ [225] @ asc ''lise t'' @ [233]
        @ asc ''cnica atual, identifiquei alguns pontos importantes:'',
      [],
      [55357, 56522] @ asc '' **An'' @ [225] @ asc ''lise Geral do Mercado:**'',
      [8226] @ asc '' IBOVESPA est'' @ [225] @ asc '' testando resist'' @ [234]
        @ asc ''ncia em 130.000 pontos'',
      [8226] @ asc '' Volume m'' @ [233] @ asc ''dio nas '' @ [250] @ asc ''ltimas sess''
        @ [245] @ asc ''es'',
      [8226] @ asc '' Tend'' @ [234] @ asc ''ncia de curto prazo lateral com vi'' @ [233]
        @ asc ''s de alta'',
      [],
      [55357, 56520] @ asc '' **WINFUT - Recomenda'' @ [231, 245] @ asc ''es:**'',
      [8226] @ asc '' Suporte: 127.800 / 127.500'',
      [8226] @ asc '' Resist'' @ [234] @ asc ''ncia: 128.400 / 128.700'',
      [8226] @ asc '' Estrat'' @ [233] @ asc ''gia: Aguardar rompimento para definir dire''
        @ [231, 227] @ asc ''o'',
      [],
      [9888, 65039] @ asc '' **Gest'' @ [227] @ asc ''o de Risco:**'',
      [8226] @ asc '' Stop loss sempre abaixo do suporte identificado'',
      [8226] @ asc '' Position size adequado ao seu capital'',
      [8226] @ asc '' N'' @ [227] @ asc ''o arrisque mais de 2% do capital por opera''
        @ [231, 227] @ asc ''o'',
      [],
      asc ''*Esta an'' @ [225] @ asc ''lise '' @ [233] @ asc '' baseada em dados t'' @ [233]
        @ asc ''cnicos e n'' @ [227] @ asc ''o constitui recomenda'' @ [231, 227]
        @ asc ''o de investimento. Sempre consulte um assessor financeiro.*'']"

definition mock_content_1 :: jsstring where
  "mock_content_1 =
   join [10]
     [asc ''An'' @ [225] @ asc ''lise t'' @ [233] @ asc ''cnica para Day Trade:'',
      [],
      [55356, 57263] @ asc '' **WINFUT - Setup Atual:**'',
      [8226] @ asc '' Pre'' @ [231] @ asc ''o: 128.100 pontos'',
      [8226] @ asc '' Movimento lateral entre 127.800 e 128.400'',
      [8226] @ asc '' MACD em diverg'' @ [234] @ asc ''ncia positiva'',
      [8226] @ asc '' RSI em 55 (neutro)'',
      [],
      [55357, 56523] @ asc '' **Estrat'' @ [233] @ asc ''gia Sugerida:**'',
      asc ''1. **Entrada Long:** Rompimento de 128.400 com volume'',
      asc ''2. **Stop Loss:** 127.950 (45 pontos)'',
      asc ''3. **Alvo 1:** 128.700 (30 pontos)'',
      asc ''4. **Alvo 2:** 129.000 (60 pontos)'',
      [],
      [55357, 56589] @ asc '' **INDFUT - Observa'' @ [231, 245] @ asc ''es:**'',
      [8226] @ asc '' Maior volatilidade que WINFUT'',
      [8226] @ asc '' Correla'' @ [231, 227] @ asc ''o alta com IBOV'',
      [8226] @ asc '' Requer maior capital devido ao tick'',
      [],
      [9889] @ asc '' **Dicas para Day Trade:**'',
      [8226] @ asc '' Opere apenas nos hor'' @ [225]
        @ asc ''rios de maior volume (10h-11h30 / 14h-16h)'',
      [8226] @ asc '' Use ordens stop para prote'' @ [231, 227] @ asc ''o autom'' @ [225]
        @ asc ''tica'',
      [8226] @ asc '' Acompanhe os '' @ [237] @ asc ''ndices americanos para conflu'' @ [234]
        @ asc ''ncia'',
      [],
      asc ''*Lembrando que day trade '' @ [233] @ asc '' uma atividade de alto risco.*'']"

definition mock_responses :: "ai_response list" where
  "mock_responses =
     [\<lparr>resp_content = JSString mock_content_0, resp_tokensUsed = JSNumber (Finite 150)\<rparr>,
      \<lparr>resp_content = JSString mock_content_1, resp_tokensUsed = JSNumber (Finite 180)\<rparr>]"

text \<open>
  \<open>responses[Math.floor(Math.random() * responses.length)]\<close>, with \<open>u\<close> the random
  number. An index outside the array reads undefined (\<open>None\<close>).
\<close>

definition getMockResponse :: "real \<Rightarrow> ai_response option" where
  "getMockResponse u =
     (let i = \<lfloor>u * real (length mock_responses)\<rfloor>
      in if 0 \<le> i \<and> i < int (length mock_responses)
         then Some (mock_responses ! nat i) else None)"

text \<open>
  The body of the \<open>try\<close> block of \<open>callAIProvider\<close>: the call for the provider id. An
  id that is none of the three falls through every branch (\<open>None\<close>).
\<close>

definition provider_call ::
  "environment \<Rightarrow> jsstring \<Rightarrow> jsstring \<Rightarrow> (js_error + ai_response) option" where
  "provider_call env provider context =
     (if provider = asc ''openai'' then Some (callOpenAI env context)
      else if provider = asc ''claude'' then Some (callClaude env context)
      else if provider = asc ''deepseek'' then Some (callDeepSeek env context)
      else None)"

text \<open>
  \<open>callAIProvider\<close>: the response of the call; undefined (\<open>None\<close>) when no branch was
  taken; and when the call raised, the error is caught and a mock response returned in
  its place.
\<close>

definition callAIProvider :: "environment \<Rightarrow> jsstring \<Rightarrow> jsstring \<Rightarrow> ai_response option" where
  "callAIProvider env provider context =
     (case provider_call env provider context of
        None \<Rightarrow> None
      | Some (Inr response) \<Rightarrow> Some response
      | Some (Inl error) \<Rightarrow> getMockResponse (math_random env))"

section \<open>Usage meter\<close>

text \<open>
  \<open>logUsage\<close> reads the account, takes one credit from a free or basic account that has
  some, and appends a log entry. The first call of the store that fails ends the function
  (the error is caught and logged), so a failed update leaves no log entry. Neither
  \<open>provider\<close> nor \<open>tokensUsed\<close> is used.
\<close>

definition usage_entry :: "nat \<Rightarrow> api_log" where
  "usage_entry userId =
     \<lparr>log_user_id = userId, log_endpoint = asc ''ai_chat'',
      log_method = asc ''POST'', log_status_code = 200\<rparr>"

definition logUsage :: "database \<Rightarrow> nat \<Rightarrow> jsstring \<Rightarrow> jsvalue \<Rightarrow> database" where
  "logUsage db userId provider tokens =
     (let entry = usage_entry userId
      in case database_get_user db userId of
           (Inl error, db1) \<Rightarrow> db1
         | (Inr user, db1) \<Rightarrow>
             (case user of
                Some a \<Rightarrow>
                  (if (plan a = asc ''free'' \<or> plan a = asc ''basic'') \<and> credits a > 0
                   then (case database_decrement_credits db1 userId of
                           (Inl error, db2) \<Rightarrow> db2
                         | (Inr done, db2) \<Rightarrow> snd (database_insert_log db2 entry))
                   else snd (database_insert_log db1 entry))
              | None \<Rightarrow> snd (database_insert_log db1 entry)))"

section \<open>Results and the fallback table\<close>

record dispatch_result =
  content :: jsvalue
  provider :: jsstring
  tokensUsed :: jsvalue
  model :: jsstring

definition fallback_content_consulta :: jsstring where
  "fallback_content_consulta =
     asc ''Desculpe, estou enfrentando dificuldades t'' @ [233]
        @ asc ''cnicas no momento. Por favor, tente novamente em alguns minutos ''
        @ asc ''ou reformule sua pergunta.''"

definition fallback_content_daytrade :: jsstring where
  "fallback_content_daytrade =
     asc ''Sistema de an'' @ [225] @ asc ''lise t'' @ [233]
        @ asc ''cnica temporariamente indispon'' @ [237]
        @ asc ''vel. Para day trade, sempre lembre-se de usar stop loss e n'' @ [227]
        @ asc ''o arriscar mais de 2% do capital por opera'' @ [231, 227] @ asc ''o.''"

definition fallback_content_portfolio :: jsstring where
  "fallback_content_portfolio =
     asc ''Servi'' @ [231] @ asc ''o de an'' @ [225] @ asc ''lise de portf'' @ [243]
        @ asc ''lio em manuten'' @ [231, 227] @ asc ''o. Em breve estaremos de volta com an''
        @ [225] @ asc ''lises completas de diversifica'' @ [231, 227] @ asc ''o e otimiza''
        @ [231, 227] @ asc ''o.''"

definition fallback_content_robot :: jsstring where
  "fallback_content_robot =
     asc ''Gerador de c'' @ [243]
        @ asc ''digo NTFL temporariamente offline. Consulte a documenta'' @ [231, 227]
        @ asc ''o da Nelogica para refer'' @ [234] @ asc ''ncias de programa'' @ [231, 227]
        @ asc ''o.''"

fun fallback_content :: "mode \<Rightarrow> jsstring" where
  "fallback_content Consulta = fallback_content_consulta"
| "fallback_content Daytrade = fallback_content_daytrade"
| "fallback_content Portfolio = fallback_content_portfolio"
| "fallback_content Robot = fallback_content_robot"

text \<open>
  \<open>fallbacks[mode] || fallbacks.consulta\<close>: each of the four modes has its entry, so the
  default is never taken.
\<close>

definition getFallbackResponse :: "mode \<Rightarrow> dispatch_result" where
  "getFallbackResponse mode =
     \<lparr>content = JSString (fallback_content mode), provider = asc ''fallback'',
      tokensUsed = JSNumber (Finite 50), model = asc ''fallback''\<rparr>"

section \<open>The orchestration\<close>

text \<open>
  \<open>response.tokensUsed || 100\<close>: the count itself when it converts to true, whatever
  it is, and 100 otherwise.
\<close>

definition tokens_or_default :: "jsvalue \<Rightarrow> jsvalue" where
  "tokens_or_default t = (if truthy t then t else JSNumber (Finite 100))"

record world =
  store :: database
  heap :: heap

text \<open>
  \<open>generateResponse\<close>, called with all four arguments as the chat route does. A user id
  is a number or absent, and \<open>if (userId)\<close> takes absent and 0 as false. Inside the
  \<open>try\<close> block two steps can raise: reading \<open>tokensUsed\<close> of an undefined response
  (before any metering), and reading \<open>model\<close> of a provider id that has no profile (after
  it). Both are caught and answered by the fallback table.
\<close>

definition generateResponse ::
  "environment \<Rightarrow> world \<Rightarrow> jsstring \<Rightarrow> mode \<Rightarrow> nat option \<Rightarrow> nat
     \<Rightarrow> dispatch_result \<times> world" where
  "generateResponse env w message mode userId conversationHistory =
     (case searchKnowledge (store w) message mode of
        (relevantKnowledge, db1) \<Rightarrow>
          (case buildContext (heap w) message mode relevantKnowledge conversationHistory of
             (context, hp1) \<Rightarrow>
               (let prov = selectProvider message mode
                in case callAIProvider env prov context of
                     None \<Rightarrow> (getFallbackResponse mode, \<lparr>store = db1, heap = hp1\<rparr>)
                   | Some response \<Rightarrow>
                       (let db2 =
                              (case userId of
                                 None \<Rightarrow> db1
                               | Some uid \<Rightarrow>
                                   if uid \<noteq> 0
                                   then logUsage db1 uid prov
                                          (tokens_or_default (resp_tokensUsed response))
                                   else db1)
                        in case map_of providers prov of
                             None \<Rightarrow> (getFallbackResponse mode, \<lparr>store = db2, heap = hp1\<rparr>)
                           | Some profile \<Rightarrow>
                               (\<lparr>content = resp_content response, provider = prov,
                                 tokensUsed = tokens_or_default (resp_tokensUsed response),
                                 model = model_name profile\<rparr>,
                                \<lparr>store = db2, heap = hp1\<rparr>)))))"

text \<open>The prompt a request sends: the context built from the retrieved knowledge.\<close>

definition request_context :: "world \<Rightarrow> jsstring \<Rightarrow> mode \<Rightarrow> nat \<Rightarrow> jsstring" where
  "request_context w message mode conversationHistory =
     fst (buildContext (heap w) message mode
            (fst (searchKnowledge (store w) message mode)) conversationHistory)"

section \<open>Example inputs\<close>

text \<open>The question of the keyword example: \<open>Qual a tendencia do WINFUT hoje\<close>, with the
  circumflex on the second e of the third word.\<close>

definition tendencia_question :: jsstring where
  "tendencia_question = asc ''Qual a tend'' @ [234] @ asc ''ncia do WINFUT hoje''"

section \<open>The selection policy in words\<close>

text \<open>
  A message contains a word when some stretch of it is the word, and contains it
  case-insensitively when some stretch of it is the word up to the case of the letters.
  \<open>has_stretch P n text\<close>: some stretch of \<open>n\<close> code units of the text (or a shorter one
  at its end) satisfies \<open>P\<close>.
\<close>

fun has_stretch :: "(jsstring \<Rightarrow> bool) \<Rightarrow> nat \<Rightarrow> jsstring \<Rightarrow> bool" where
  "has_stretch P n [] = P []"
| "has_stretch P n (c # cs) = (P (take n (c # cs)) \<or> has_stretch P n cs)"

definition contains_word :: "jsstring \<Rightarrow> jsstring \<Rightarrow> bool" where
  "contains_word message word = has_stretch (\<lambda>s. s = word) (length word) message"

definition contains_word_ci :: "jsstring \<Rightarrow> jsstring \<Rightarrow> bool" where
  "contains_word_ci message word =
     has_stretch (\<lambda>s. toLowerCase s = toLowerCase word) (length word) message"

text \<open>
  A policy is a list of rules tried in order, the first that matches giving the provider,
  and provider A when none matches. Provider A is \<open>openai\<close>, B is \<open>claude\<close>, C is
  \<open>deepseek\<close>.
\<close>

fun first_match ::
  "((jsstring \<Rightarrow> mode \<Rightarrow> bool) \<times> jsstring) list \<Rightarrow> jsstring \<Rightarrow> mode \<Rightarrow> jsstring" where
  "first_match [] message mode = asc ''openai''"
| "first_match ((rule, p) # rules) message mode =
     (if rule message mode then p else first_match rules message mode)"

text \<open>
  The rules with the case-insensitive test in rule 1 only, the words of rules 2 and 3
  being looked for as they are written.
\<close>

definition selection_rules_rule_1_only ::
  "((jsstring \<Rightarrow> mode \<Rightarrow> bool) \<times> jsstring) list" where
  "selection_rules_rule_1_only =
     [(\<lambda>message mode. mode = Robot
          \<or> contains_word_ci message (asc ''c'' @ [243] @ asc ''digo'')
          \<or> contains_word_ci message (asc ''ntfl''),
       asc ''openai''),
      (\<lambda>message mode. mode = Daytrade
          \<or> contains_word message (asc ''an'' @ [225] @ asc ''lise t'' @ [233] @ asc ''cnica''),
       asc ''claude''),
      (\<lambda>message mode. contains_word message (asc ''previs'' @ [227] @ asc ''o'')
          \<or> contains_word message (asc ''tend'' @ [234] @ asc ''ncia''),
       asc ''deepseek'')]"

text \<open>The rules with the case-insensitive test in all three.\<close>

definition selection_rules :: "((jsstring \<Rightarrow> mode \<Rightarrow> bool) \<times> jsstring) list" where
  "selection_rules =
     [(\<lambda>message mode. mode = Robot
          \<or> contains_word_ci message (asc ''c'' @ [243] @ asc ''digo'')
          \<or> contains_word_ci message (asc ''ntfl''),
       asc ''openai''),
      (\<lambda>message mode. mode = Daytrade
          \<or> contains_word_ci message
               (asc ''an'' @ [225] @ asc ''lise t'' @ [233] @ asc ''cnica''),
       asc ''claude''),
      (\<lambda>message mode. contains_word_ci message (asc ''previs'' @ [227] @ asc ''o'')
          \<or> contains_word_ci message (asc ''tend'' @ [234] @ asc ''ncia''),
       asc ''deepseek'')]"

text \<open>The words \<open>ANALISE TECNICA\<close> in capitals, with their accents.\<close>

definition capital_analise_message :: jsstring where
  "capital_analise_message = asc ''AN'' @ [193] @ asc ''LISE T'' @ [201] @ asc ''CNICA''"

text \<open>A request for robot code that also speaks of a trend:
  \<open>gere um codigo para a tendencia\<close>, with the accents of the Portuguese words.\<close>

definition codigo_tendencia_message :: jsstring where
  "codigo_tendencia_message =
     asc ''gere um c'' @ [243] @ asc ''digo para a tend'' @ [234] @ asc ''ncia''"

section \<open>Example stores\<close>

text \<open>Two knowledge rows and two accounts; \<open>failing_store\<close> rejects its next call.\<close>

definition winfut_row :: knowledge_row where
  "winfut_row =
     \<lparr>row_category = asc ''Futuros'', row_subcategory = Some (asc ''WINFUT''),
      row_title = asc ''Mini Indice Bovespa Futuro'',
      row_content = asc ''O WINFUT e o contrato futuro do mini indice Bovespa.'',
      row_tags = Some (asc ''winfut,ibovespa,day trade,futuros''),
      row_relevance_score = 1\<rparr>"

definition macd_row :: knowledge_row where
  "macd_row =
     \<lparr>row_category = asc ''Indicadores'', row_subcategory = Some (asc ''MACD''),
      row_title = asc ''Moving Average Convergence Divergence'',
      row_content = asc ''O MACD e um indicador de momentum.'',
      row_tags = None, row_relevance_score = 2\<rparr>"

definition example_store :: database where
  "example_store =
     \<lparr>users = [1 \<mapsto> \<lparr>plan = asc ''free'', credits = 3\<rparr>,
               2 \<mapsto> \<lparr>plan = asc ''premium'', credits = 9999\<rparr>],
      api_logs = [],
      financial_knowledge = [winfut_row, macd_row],
      faults = []\<rparr>"

definition failing_store :: database where
  "failing_store = example_store\<lparr>faults := [True]\<rparr>"

section \<open>The assembled context as the specification words it\<close>

text \<open>
  The construction order of the specification: the instruction block of the mode; the
  knowledge section, one line \<open>- title: content\<close> a snippet, when there is knowledge; the
  conversation section, one line \<open>role: content\<close> for each of the last five turns, oldest
  first, when there is history; the user's message and the prompt for the response.
\<close>

definition knowledge_section :: "knowledge_item list \<Rightarrow> jsstring" where
  "knowledge_section knowledge =
     (if knowledge = [] then []
      else asc ''Conhecimento relevante:'' @ [10]
           @ concat (map (\<lambda>item. asc ''- '' @ title item @ asc '': '' @ item_content item @ [10])
                       knowledge)
           @ [10])"

definition last_turns :: "nat \<Rightarrow> turn list \<Rightarrow> turn list" where
  "last_turns n history = rev (take n (rev history))"

definition history_section :: "turn list \<Rightarrow> jsstring" where
  "history_section history =
     (if history = [] then []
      else asc ''Contexto da conversa:'' @ [10]
           @ concat (map (\<lambda>msg. role msg @ asc '': '' @ turn_content msg @ [10])
                       (last_turns 5 history))
           @ [10])"

definition response_marker :: jsstring where
  "response_marker = asc ''Resposta:''"

definition assembled_context ::
  "jsstring \<Rightarrow> mode \<Rightarrow> knowledge_item list \<Rightarrow> turn list \<Rightarrow> jsstring" where
  "assembled_context message mode knowledge history =
     financialPrompts mode @ [10, 10] @ knowledge_section knowledge @ history_section history
     @ asc ''Pergunta do usu'' @ [225] @ asc ''rio: '' @ message @ [10, 10] @ response_marker"

section \<open>Example worlds and environments\<close>

text \<open>
  A conversation of six turns at reference 0, and the same conversation with another
  first turn at reference 1; \<open>example_world\<close> holds them over the example store.
\<close>

definition six_turns :: "turn list" where
  "six_turns =
     [\<lparr>role = asc ''user'', turn_content = asc ''um''\<rparr>,
      \<lparr>role = asc ''assistant'', turn_content = asc ''dois''\<rparr>,
      \<lparr>role = asc ''user'', turn_content = asc ''tres''\<rparr>,
      \<lparr>role = asc ''assistant'', turn_content = asc ''quatro''\<rparr>,
      \<lparr>role = asc ''user'', turn_content = asc ''cinco''\<rparr>,
      \<lparr>role = asc ''assistant'', turn_content = asc ''seis''\<rparr>]"

definition example_heap :: heap where
  "example_heap =
     \<lparr>arrays = (\<lambda>a. if a = 0 then six_turns
                     else if a = 1
                     then \<lparr>role = asc ''user'', turn_content = asc ''zero''\<rparr> # tl six_turns
                     else []),
      next_free = 2\<rparr>"

definition example_world :: world where
  "example_world = \<lparr>store = example_store, heap = example_heap\<rparr>"

text \<open>
  \<open>failing_environment\<close>: every endpoint rejects the request and the random number is 0.
  \<open>answering_environment\<close>: OpenAI answers and reports 0 tokens, Anthropic answers
  without token counts, DeepSeek answers and reports 42 tokens.
  \<open>negative_count_environment\<close>: as the latter, but OpenAI reports -5 tokens. The
  example runtime adds exactly and prints a number as the decimal digits of its whole part,
  as JavaScript does on the whole numbers of the examples.
\<close>

fun decimal_digits :: "nat \<Rightarrow> jsstring" where
  "decimal_digits n =
     (if n < 10 then [48 + n] else decimal_digits (n div 10) @ [48 + n mod 10])"

declare decimal_digits.simps [simp del]

definition whole_number_text :: "real \<Rightarrow> jsstring" where
  "whole_number_text x = (if x < 0 then [45] else []) @ decimal_digits (nat \<lfloor>\<bar>x\<bar>\<rfloor>)"

definition failing_environment :: environment where
  "failing_environment =
     \<lparr>openai_api = (\<lambda>context. Inl RequestError),
      claude_api = (\<lambda>context. Inl RequestError),
      deepseek_api = (\<lambda>context. Inl RequestError),
      math_random = 0,
      double_add = (\<lambda>x y. Finite (x + y)),
      double_to_string = whole_number_text\<rparr>"

definition answering_environment :: environment where
  "answering_environment =
     \<lparr>openai_api = (\<lambda>context.
        Inr (ChatCompletion (Some [ChatChoice (Some (ChatMessage (JSString (asc ''ok''))))])
               (Some (ChatUsage (JSNumber (Finite 0)))))),
      claude_api = (\<lambda>context.
        Inr (ClaudeMessage (Some [ClaudeBlock (JSString (asc ''ok''))])
               (Some (ClaudeUsage JSUndefined JSUndefined)))),
      deepseek_api = (\<lambda>context.
        Inr (ChatCompletion (Some [ChatChoice (Some (ChatMessage (JSString (asc ''ok''))))])
               (Some (ChatUsage (JSNumber (Finite 42)))))),
      math_random = 1 / 2,
      double_add = (\<lambda>x y. Finite (x + y)),
      double_to_string = whole_number_text\<rparr>"

definition negative_count_environment :: environment where
  "negative_count_environment =
     answering_environment
       \<lparr>openai_api := (\<lambda>context.
          Inr (ChatCompletion (Some [ChatChoice (Some (ChatMessage (JSString (asc ''ok''))))])
                 (Some (ChatUsage (JSNumber (Finite (- 5)))))))\<rparr>"

section \<open>A token count as the claim words it\<close>

text \<open>A strictly positive integer: a finite number, whole and above 0.\<close>

fun positive_integer :: "jsvalue \<Rightarrow> bool" where
  "positive_integer (JSNumber (Finite x)) = (0 < x \<and> x \<in> \<int>)"
| "positive_integer v = False"

section \<open>Strings and keywords: basic facts\<close>

lemma string_includes_empty: "string_includes s [] = True"
  by (cases s) simp_all

lemma split_example:
  "split_ws (toLowerCase tendencia_question) =
     [asc ''qual'', asc ''a'', asc ''tend'' @ [234] @ asc ''ncia'', asc ''do'',
      asc ''winfut'', asc ''hoje'']"
  by (simp add: tendencia_question_def toLowerCase_def asc_def lower_unit_def is_space_def)

lemma qual_no_keyword: "\<not> is_keyword (asc ''qual'')"
  by (simp add: is_keyword_def financialTerms_def toLowerCase_def asc_def lower_unit_def)

lemma a_keyword: "is_keyword (asc ''a'')"
  by (simp add: is_keyword_def financialTerms_def toLowerCase_def asc_def lower_unit_def)

lemma tendencia_keyword: "is_keyword (asc ''tend'' @ [234] @ asc ''ncia'')"
  by (simp add: is_keyword_def asc_def)

lemma do_keyword: "is_keyword (asc ''do'')"
  by (simp add: is_keyword_def financialTerms_def toLowerCase_def asc_def lower_unit_def)

lemma winfut_keyword: "is_keyword (asc ''winfut'')"
  by (simp add: is_keyword_def financialTerms_def toLowerCase_def asc_def lower_unit_def)

lemma hoje_no_keyword: "\<not> is_keyword (asc ''hoje'')"
  by (simp add: is_keyword_def financialTerms_def toLowerCase_def asc_def lower_unit_def)

lemma extractKeywords_example:
  "extractKeywords tendencia_question =
     [asc ''a'', asc ''tend'' @ [234] @ asc ''ncia'', asc ''do'', asc ''winfut'']"
proof -
  have "filter is_keyword (split_ws (toLowerCase tendencia_question)) =
      [asc ''a'', asc ''tend'' @ [234] @ asc ''ncia'', asc ''do'', asc ''winfut'']"
    unfolding split_example
    by (simp only: filter.simps qual_no_keyword a_keyword tendencia_keyword do_keyword
          winfut_keyword hoje_no_keyword if_True if_False)
  then show ?thesis by (simp add: extractKeywords_def)
qed

section \<open>Provider selector: basic facts\<close>

lemma selectProvider_range:
  "selectProvider message mode \<in> {asc ''openai'', asc ''claude'', asc ''deepseek''}"
  by (simp add: selectProvider_def)

lemma provider_ids: "fst ` set providers = {asc ''openai'', asc ''claude'', asc ''deepseek''}"
  by (simp add: providers_def) 

lemma map_of_providers:
  "map_of providers (asc ''openai'') = Some (snd (providers ! 0))"
  "map_of providers (asc ''claude'') = Some (snd (providers ! 1))"
  "map_of providers (asc ''deepseek'') = Some (snd (providers ! 2))"
  by (simp_all add: providers_def asc_def)

lemma selectProvider_has_profile:
  "\<exists>profile. map_of providers (selectProvider message mode) = Some profile"
  using selectProvider_range[of message mode] map_of_providers by auto

lemma selectProvider_not_fallback: "selectProvider message mode \<noteq> asc ''fallback''"
  using selectProvider_range[of message mode] by (auto simp: asc_def)

lemma selectProvider_oi: "selectProvider (asc ''oi'') Consulta = asc ''openai''"
  by (simp add: selectProvider_def toLowerCase_def asc_def lower_unit_def)

lemma starts_with_take: "starts_with s t = (take (length t) s = t)"
  by (induction s t rule: starts_with.induct) auto

lemma string_includes_stretch:
  "string_includes s t = has_stretch (\<lambda>x. x = t) (length t) s"
  by (induction s) (auto simp: starts_with_take)

lemma has_stretch_toLowerCase:
  "has_stretch (\<lambda>x. x = w) n (toLowerCase m) = has_stretch (\<lambda>x. toLowerCase x = w) n m"
proof (induction m)
  case Nil
  show ?case by (simp add: toLowerCase_def)
next
  case (Cons c cs)
  have t: "take n (toLowerCase (c # cs)) = toLowerCase (take n (c # cs))"
    by (simp only: toLowerCase_def take_map)
  have "has_stretch (\<lambda>x. x = w) n (toLowerCase (c # cs))
      = (take n (toLowerCase (c # cs)) = w \<or> has_stretch (\<lambda>x. x = w) n (toLowerCase cs))"
    by (simp add: toLowerCase_def)
  also have "\<dots> = (toLowerCase (take n (c # cs)) = w
      \<or> has_stretch (\<lambda>x. toLowerCase x = w) n cs)"
    by (simp only: t Cons.IH)
  finally show ?case by simp
qed

lemma includes_lower_case_word:
  assumes "toLowerCase word = word"
  shows "string_includes (toLowerCase message) word = contains_word_ci message word"
  by (simp add: string_includes_stretch has_stretch_toLowerCase contains_word_ci_def assms)

lemma selector_words_lower_case:
  "toLowerCase (asc ''c'' @ [243] @ asc ''digo'') = asc ''c'' @ [243] @ asc ''digo''"
  "toLowerCase (asc ''ntfl'') = asc ''ntfl''"
  "toLowerCase (asc ''an'' @ [225] @ asc ''lise t'' @ [233] @ asc ''cnica'')
     = asc ''an'' @ [225] @ asc ''lise t'' @ [233] @ asc ''cnica''"
  "toLowerCase (asc ''previs'' @ [227] @ asc ''o'') = asc ''previs'' @ [227] @ asc ''o''"
  "toLowerCase (asc ''tend'' @ [234] @ asc ''ncia'') = asc ''tend'' @ [234] @ asc ''ncia''"
  by (simp_all add: toLowerCase_def asc_def lower_unit_def)

lemma selectProvider_by_rules:
  "selectProvider message mode = first_match selection_rules message mode"
  unfolding selectProvider_def selection_rules_def
    includes_lower_case_word[OF selector_words_lower_case(1)]
    includes_lower_case_word[OF selector_words_lower_case(2)]
    includes_lower_case_word[OF selector_words_lower_case(3)]
    includes_lower_case_word[OF selector_words_lower_case(4)]
    includes_lower_case_word[OF selector_words_lower_case(5)]
  by simp

section \<open>Store, retriever and meter: basic facts\<close>

lemma knowledge_query_length: "length (knowledge_query pat rows) \<le> 5"
  by (simp add: knowledge_query_def)

lemma searchKnowledge_store_failure:
  "fst (next_fault db) \<Longrightarrow> fst (searchKnowledge db query mode) = []"
  by (auto simp: searchKnowledge_def database_all_knowledge_def Let_def
      split: prod.splits bool.splits)

lemma searchKnowledge_store:
  "users (snd (searchKnowledge db query mode)) = users db"
  "api_logs (snd (searchKnowledge db query mode)) = api_logs db"
  "faults (snd (searchKnowledge db query mode)) = tl (faults db)"
  by (auto simp: searchKnowledge_def database_all_knowledge_def next_fault_def Let_def
      split: list.splits bool.splits)

lemma plan_names_differ:
  "asc ''premium'' \<noteq> asc ''free''" "asc ''premium'' \<noteq> asc ''basic''"
  "asc ''unlimited'' \<noteq> asc ''free''" "asc ''unlimited'' \<noteq> asc ''basic''"
  by (simp_all add: asc_def)

lemma logUsage_charged:
  assumes u: "users db userId = Some a"
    and f: "True \<notin> set (take 3 (faults db))"
    and p: "plan a = asc ''free'' \<or> plan a = asc ''basic''" and c: "credits a > 0"
  shows "users (logUsage db userId prov tokens)
           = (users db)(userId \<mapsto> a\<lparr>credits := credits a - 1\<rparr>)"
    and "api_logs (logUsage db userId prov tokens) = api_logs db @ [usage_entry userId]"
  using assms
  by (auto simp: logUsage_def database_get_user_def database_decrement_credits_def
      database_insert_log_def next_fault_def numeral_3_eq_3 split: list.splits)

lemma logUsage_not_charged:
  assumes u: "users db userId = Some a"
    and f: "True \<notin> set (take 3 (faults db))"
    and p: "\<not> ((plan a = asc ''free'' \<or> plan a = asc ''basic'') \<and> credits a > 0)"
  shows "users (logUsage db userId prov tokens) = users db"
    and "api_logs (logUsage db userId prov tokens) = api_logs db @ [usage_entry userId]"
  using assms
  by (auto simp: logUsage_def database_get_user_def database_decrement_credits_def
      database_insert_log_def next_fault_def numeral_3_eq_3 split: list.splits)

lemma logUsage_ignores_tokens:
  "logUsage db userId prov tokens = logUsage db userId prov' tokens'"
  by (simp add: logUsage_def)

lemma example_user_1: "users example_store 1 = Some \<lparr>plan = asc ''free'', credits = 3\<rparr>"
  by (simp add: example_store_def)

lemma example_user_2: "users example_store 2 = Some \<lparr>plan = asc ''premium'', credits = 9999\<rparr>"
  by (simp add: example_store_def)

lemma example_no_faults: "True \<notin> set (take 3 (faults example_store))"
  by (simp add: example_store_def)

lemma example_retrieval_store:
  "users (snd (searchKnowledge (store example_world) (asc ''oi'') Consulta)) 1
     = Some \<lparr>plan = asc ''free'', credits = 3\<rparr>"
  "True \<notin> set (take 3 (faults (snd (searchKnowledge (store example_world) (asc ''oi'')
      Consulta))))"
  "api_logs (snd (searchKnowledge (store example_world) (asc ''oi'') Consulta)) = []"
  by (simp_all add: searchKnowledge_store example_world_def example_store_def)

section \<open>Context assembler: basic facts\<close>

lemma foldl_add_knowledge_line:
  "foldl add_knowledge_line acc ks =
     acc @ concat (map (\<lambda>item. asc ''- '' @ title item @ asc '': '' @ item_content item @ [10]) ks)"
  by (induction ks arbitrary: acc) (simp_all add: add_knowledge_line_def)

lemma foldl_add_history_line:
  "foldl add_history_line acc ts =
     acc @ concat (map (\<lambda>msg. role msg @ asc '': '' @ turn_content msg @ [10]) ts)"
  by (induction ts arbitrary: acc) (simp_all add: add_history_line_def)

lemma last_turns_drop: "last_turns n h = drop (length h - n) h"
  by (simp add: last_turns_def take_rev)

lemma buildContext_text:
  "fst (buildContext hp message mode knowledge history)
     = assembled_context message mode knowledge (arrays hp history)"
  by (simp add: buildContext_def assembled_context_def knowledge_section_def
      history_section_def array_slice_last_def Let_def foldl_add_knowledge_line
      foldl_add_history_line last_turns_drop response_marker_def split: prod.splits)

lemma buildContext_frame:
  assumes "a < next_free hp"
  shows "arrays (snd (buildContext hp message mode knowledge history)) a = arrays hp a"
  using assms
  by (auto simp: buildContext_def array_slice_last_def Let_def split: prod.splits)

lemma last_turns_empty_iff: "last_turns 5 h = [] \<longleftrightarrow> h = []"
  by (simp add: last_turns_def)

lemma history_section_window:
  assumes "last_turns 5 h = last_turns 5 h'"
  shows "history_section h = history_section h'"
proof -
  have "h = [] \<longleftrightarrow> h' = []"
    using assms last_turns_empty_iff[of h] last_turns_empty_iff[of h'] by simp
  with assms show ?thesis by (simp add: history_section_def)
qed

section \<open>Provider dispatcher: basic facts\<close>

lemma provider_call_selected:
  "\<exists>outcome. provider_call env (selectProvider message mode) context = Some outcome"
  using selectProvider_range[of message mode] by (auto simp: provider_call_def)

lemma getMockResponse_in_range:
  assumes "0 \<le> u" "u < 1"
  shows "getMockResponse u
           = Some \<lparr>resp_content = JSString mock_content_0,
                   resp_tokensUsed = JSNumber (Finite 150)\<rparr>
       \<or> getMockResponse u
           = Some \<lparr>resp_content = JSString mock_content_1,
                   resp_tokensUsed = JSNumber (Finite 180)\<rparr>"
proof -
  have l: "length mock_responses = 2" by (simp add: mock_responses_def)
  have "0 \<le> \<lfloor>u * 2\<rfloor>" using assms by simp
  moreover have "\<lfloor>u * 2\<rfloor> < 2" using assms by (simp add: floor_less_iff)
  ultimately have "\<lfloor>u * 2\<rfloor> = 0 \<or> \<lfloor>u * 2\<rfloor> = 1" by linarith
  then show ?thesis using assms by (auto simp: getMockResponse_def l mock_responses_def)
qed

lemma mock_contents_not_empty: "mock_content_0 \<noteq> []" "mock_content_1 \<noteq> []"
  by (simp_all add: mock_content_0_def mock_content_1_def asc_def)

lemma callAIProvider_failure:
  assumes "provider_call env prov context = Some (Inl error)"
    and "0 \<le> math_random env" "math_random env < 1"
  shows "callAIProvider env prov context
           = Some \<lparr>resp_content = JSString mock_content_0,
                     resp_tokensUsed = JSNumber (Finite 150)\<rparr>
       \<or> callAIProvider env prov context
           = Some \<lparr>resp_content = JSString mock_content_1,
                     resp_tokensUsed = JSNumber (Finite 180)\<rparr>"
  using assms(1) getMockResponse_in_range[OF assms(2,3)]
  by (simp add: callAIProvider_def)

lemma callAIProvider_success:
  assumes "provider_call env prov context = Some (Inr response)"
  shows "callAIProvider env prov context = Some response"
  using assms by (simp add: callAIProvider_def)

lemma callAIProvider_defined:
  assumes "0 \<le> math_random env" "math_random env < 1"
  shows "\<exists>response. callAIProvider env (selectProvider message mode) context = Some response"
proof -
  obtain outcome where o: "provider_call env (selectProvider message mode) context = Some outcome"
    using provider_call_selected by blast
  show ?thesis
  proof (cases outcome)
    case (Inl error)
    with o callAIProvider_failure[OF _ assms] show ?thesis by blast
  next
    case (Inr response)
    with o callAIProvider_success show ?thesis by blast
  qed
qed

lemma failing_environment_call:
  "provider_call failing_environment (selectProvider message mode) context = Some (Inl RequestError)"
  using selectProvider_range[of message mode]
  by (auto simp: provider_call_def failing_environment_def callOpenAI_def callClaude_def
      callDeepSeek_def)

lemma failing_environment_random:
  "0 \<le> math_random failing_environment" "math_random failing_environment < 1"
  by (simp_all add: failing_environment_def)

lemma answering_environment_random:
  "0 \<le> math_random answering_environment" "math_random answering_environment < 1"
  by (simp_all add: answering_environment_def)

lemma answering_environment_call:
  "provider_call answering_environment (asc ''openai'') context
     = Some (Inr \<lparr>resp_content = JSString (asc ''ok''),
                  resp_tokensUsed = JSNumber (Finite 0)\<rparr>)"
  by (simp add: provider_call_def answering_environment_def callOpenAI_def
      read_chat_completion_def)

section \<open>Orchestration: basic facts\<close>

lemma generateResponse_answer:
  assumes "callAIProvider env (selectProvider message mode)
             (request_context w message mode history) = Some response"
  shows "content (fst (generateResponse env w message mode userId history)) = resp_content response"
    and "provider (fst (generateResponse env w message mode userId history)) = selectProvider message mode"
    and "tokensUsed (fst (generateResponse env w message mode userId history))
           = tokens_or_default (resp_tokensUsed response)"
    and "Some (model (fst (generateResponse env w message mode userId history)))
           = map_option model_name (map_of providers (selectProvider message mode))"
  using assms selectProvider_has_profile[of message mode]
  by (auto simp: generateResponse_def request_context_def Let_def split: prod.splits)

lemma generateResponse_undefined:
  assumes "callAIProvider env (selectProvider message mode)
             (request_context w message mode history) = None"
  shows "fst (generateResponse env w message mode userId history) = getFallbackResponse mode"
  using assms
  by (auto simp: generateResponse_def request_context_def Let_def split: prod.splits)

lemma generateResponse_heap:
  "heap (snd (generateResponse env w message mode userId history))
     = snd (buildContext (heap w) message mode
              (fst (searchKnowledge (store w) message mode)) history)"
  by (auto simp: generateResponse_def Let_def split: prod.splits option.splits)

lemma generateResponse_store:
  assumes "callAIProvider env (selectProvider message mode)
             (request_context w message mode history) = Some response"
    and "uid \<noteq> 0"
  shows "store (snd (generateResponse env w message mode (Some uid) history))
           = logUsage (snd (searchKnowledge (store w) message mode)) uid
               (selectProvider message mode) (tokens_or_default (resp_tokensUsed response))"
  using assms selectProvider_has_profile[of message mode]
  by (auto simp: generateResponse_def request_context_def Let_def split: prod.splits)

lemma generateResponse_provider_model:
  assumes "0 \<le> math_random env" "math_random env < 1"
  shows "provider (fst (generateResponse env w message mode userId history))
           = selectProvider message mode"
    and "Some (model (fst (generateResponse env w message mode userId history)))
           = map_option model_name (map_of providers (selectProvider message mode))"
proof -
  obtain response where r: "callAIProvider env (selectProvider message mode)
      (request_context w message mode history) = Some response"
    using callAIProvider_defined[OF assms] by blast
  show "provider (fst (generateResponse env w message mode userId history))
           = selectProvider message mode"
    by (rule generateResponse_answer(2)[OF r])
  show "Some (model (fst (generateResponse env w message mode userId history)))
           = map_option model_name (map_of providers (selectProvider message mode))"
    by (rule generateResponse_answer(4)[OF r])
qed

lemma tokens_or_default_truthy: "truthy (tokens_or_default t)"
  by (simp add: tokens_or_default_def)

lemma generateResponse_tokens_truthy:
  "truthy (tokensUsed (fst (generateResponse env w message mode userId history)))"
proof (cases "callAIProvider env (selectProvider message mode)
    (request_context w message mode history)")
  case None
  then show ?thesis
    by (simp add: generateResponse_undefined getFallbackResponse_def)
next
  case (Some response)
  then show ?thesis
    by (simp add: generateResponse_answer(3) tokens_or_default_truthy)
qed

lemma answering_environment_claude_call:
  "provider_call answering_environment (asc ''claude'') context
     = Some (Inr \<lparr>resp_content = JSString (asc ''ok''), resp_tokensUsed = JSNumber NaN\<rparr>)"
  by (simp add: provider_call_def answering_environment_def callClaude_def js_plus_def asc_def)

lemma selectProvider_oi_daytrade: "selectProvider (asc ''oi'') Daytrade = asc ''claude''"
  by (simp add: selectProvider_def toLowerCase_def asc_def lower_unit_def)

lemma negative_count_environment_call:
  "provider_call negative_count_environment (asc ''openai'') context
     = Some (Inr \<lparr>resp_content = JSString (asc ''ok''),
                  resp_tokensUsed = JSNumber (Finite (- 5))\<rparr>)"
  by (simp add: provider_call_def negative_count_environment_def answering_environment_def
      callOpenAI_def read_chat_completion_def)

section \<open>Provider failure\<close>

text \<open>
  C1, as stated, fails. In \<open>failing_environment\<close> the call to the selected provider is
  rejected, and the result of \<open>generateResponse\<close> for the message \<open>oi\<close> in mode consulta
  names the provider \<open>openai\<close>, not \<open>fallback\<close>: \<open>callAIProvider\<close> catches the error and
  hands back a mock response, so the fallback table is not consulted.
\<close>

theorem provider_failure_counterexample:
  "provider_call failing_environment (selectProvider (asc ''oi'') Consulta)
      (request_context example_world (asc ''oi'') Consulta 0) = Some (Inl RequestError)
   \<and> provider (fst (generateResponse failing_environment example_world (asc ''oi'') Consulta
        None 0)) = asc ''openai''
   \<and> provider (fst (generateResponse failing_environment example_world (asc ''oi'') Consulta
        None 0)) \<noteq> asc ''fallback''"
proof -
  obtain response where
    "callAIProvider failing_environment (selectProvider (asc ''oi'') Consulta)
       (request_context example_world (asc ''oi'') Consulta 0) = Some response"
    using callAIProvider_defined[OF failing_environment_random] by blast
  then have "provider (fst (generateResponse failing_environment example_world (asc ''oi'')
      Consulta None 0)) = selectProvider (asc ''oi'') Consulta"
    by (rule generateResponse_answer(2))
  then show ?thesis
    using failing_environment_call [of "asc ''oi''" Consulta]
      selectProvider_not_fallback [of "asc ''oi''" Consulta]
    by (simp add: selectProvider_oi)
qed

text \<open>
  C1, amended. When the call to the selected provider fails, \<open>generateResponse\<close> returns
  a fully populated result: its provider is the selected provider (never \<open>fallback\<close>),
  its model that provider's model, and its content one of the two mock analyses, which
  are not empty and do not depend on the mode, with 150 and 180 tokens. The error of the
  provider does not reach the caller.
\<close>

theorem provider_failure_gives_mock:
  assumes "provider_call env (selectProvider message mode)
             (request_context w message mode history) = Some (Inl error)"
    and "0 \<le> math_random env" and "math_random env < 1"
  shows "provider (fst (generateResponse env w message mode userId history))
           = selectProvider message mode
       \<and> provider (fst (generateResponse env w message mode userId history)) \<noteq> asc ''fallback''
       \<and> Some (model (fst (generateResponse env w message mode userId history)))
           = map_option model_name (map_of providers (selectProvider message mode))
       \<and> (content (fst (generateResponse env w message mode userId history)) = JSString mock_content_0
            \<and> tokensUsed (fst (generateResponse env w message mode userId history))
                = JSNumber (Finite 150)
          \<or> content (fst (generateResponse env w message mode userId history)) = JSString mock_content_1
            \<and> tokensUsed (fst (generateResponse env w message mode userId history))
                = JSNumber (Finite 180))
       \<and> mock_content_0 \<noteq> [] \<and> mock_content_1 \<noteq> []"
proof -
  let ?r = "fst (generateResponse env w message mode userId history)"
  from callAIProvider_failure[OF assms]
  consider
    (zero) "callAIProvider env (selectProvider message mode)
              (request_context w message mode history)
              = Some \<lparr>resp_content = JSString mock_content_0,
                     resp_tokensUsed = JSNumber (Finite 150)\<rparr>"
  | (one) "callAIProvider env (selectProvider message mode)
              (request_context w message mode history)
              = Some \<lparr>resp_content = JSString mock_content_1,
                     resp_tokensUsed = JSNumber (Finite 180)\<rparr>"
    by blast
  then show ?thesis
  proof cases
    case zero
    have "content ?r = JSString mock_content_0" "tokensUsed ?r = JSNumber (Finite 150)"
      "provider ?r = selectProvider message mode"
      "Some (model ?r) = map_option model_name (map_of providers (selectProvider message mode))"
      using generateResponse_answer[OF zero, of userId]
      by (simp_all add: tokens_or_default_def)
    then show ?thesis
      using selectProvider_not_fallback mock_contents_not_empty by simp
  next
    case one
    have "content ?r = JSString mock_content_1" "tokensUsed ?r = JSNumber (Finite 180)"
      "provider ?r = selectProvider message mode"
      "Some (model ?r) = map_option model_name (map_of providers (selectProvider message mode))"
      using generateResponse_answer[OF one, of userId]
      by (simp_all add: tokens_or_default_def)
    then show ?thesis
      using selectProvider_not_fallback mock_contents_not_empty by simp
  qed
qed

theorem provider_failure_gives_mock_witness:
  "provider_call failing_environment (selectProvider (asc ''oi'') Consulta)
      (request_context example_world (asc ''oi'') Consulta 0) = Some (Inl RequestError)
   \<and> 0 \<le> math_random failing_environment \<and> math_random failing_environment < 1
   \<and> provider (fst (generateResponse failing_environment example_world (asc ''oi'') Consulta
        (Some 1) 0)) = asc ''openai''
   \<and> model (fst (generateResponse failing_environment example_world (asc ''oi'') Consulta
        (Some 1) 0)) = asc ''gpt-4-turbo-preview''"
  using provider_failure_gives_mock [OF failing_environment_call failing_environment_random,
      where w = example_world and message = "asc ''oi''" and mode = Consulta and history = 0
        and userId = "Some 1"]
    failing_environment_call [of "asc ''oi''" Consulta] failing_environment_random
  by (simp add: selectProvider_oi map_of_providers providers_def)

section \<open>Provider selection\<close>

text \<open>
  C2, as stated, fails. The claim gives the case-insensitive test to rule 1 only. For the
  message \<open>ANALISE TECNICA\<close> in capitals, in mode portfolio, the rules so read find no
  match and give \<open>openai\<close>, while \<open>selectProvider\<close>, which lower-cases the message before
  every test, matches rule 2 and returns \<open>claude\<close>.
\<close>

theorem selectProvider_capitals_counterexample:
  "first_match selection_rules_rule_1_only capital_analise_message Portfolio = asc ''openai''
   \<and> selectProvider capital_analise_message Portfolio = asc ''claude''
   \<and> selectProvider capital_analise_message Portfolio
       \<noteq> first_match selection_rules_rule_1_only capital_analise_message Portfolio"
  by (simp add: selectProvider_def selection_rules_rule_1_only_def capital_analise_message_def
      contains_word_def contains_word_ci_def toLowerCase_def asc_def lower_unit_def)

text \<open>
  C2, amended. \<open>selectProvider\<close> is a function of the message and the mode alone, defined
  on all of them. Its result is the one the three rules give when tried in order, the
  first matching rule winning and \<open>openai\<close> being the default, every word of every rule
  being looked for case-insensitively; it is the id of a configured provider; and in mode
  robot it is \<open>openai\<close> for every message, in particular for one that also contains the
  word of rule 3.
\<close>

theorem selectProvider_priority_order:
  "selectProvider message mode = first_match selection_rules message mode
   \<and> selectProvider message mode \<in> fst ` set providers
   \<and> selectProvider message Robot = asc ''openai''
   \<and> contains_word codigo_tendencia_message (asc ''tend'' @ [234] @ asc ''ncia'')
   \<and> selectProvider codigo_tendencia_message Robot = asc ''openai''"
proof -
  have "selectProvider message mode = first_match selection_rules message mode"
    by (rule selectProvider_by_rules)
  moreover have "selectProvider message mode \<in> fst ` set providers"
    using selectProvider_range[of message mode] by (simp only: provider_ids)
  moreover have "selectProvider m Robot = asc ''openai''" for m
    by (simp add: selectProvider_def)
  moreover have "contains_word codigo_tendencia_message (asc ''tend'' @ [234] @ asc ''ncia'')"
    by (simp add: contains_word_def codigo_tendencia_message_def asc_def)
  ultimately show ?thesis by blast
qed

section \<open>Metering\<close>

text \<open>
  C3. Take an account that exists and a store that completes the (at most three) calls
  of \<open>logUsage\<close>. On the free or basic plan with a positive balance, the call takes
  exactly one credit from that account, touches no other account and appends exactly one
  log entry. On the premium or unlimited plan it leaves every balance as it was and still
  appends the entry. The provider and the token count handed to \<open>logUsage\<close> have no
  influence on the outcome. And a \<open>generateResponse\<close> whose provider call succeeds, for a
  user id that is not 0, makes this one metering call on the store as retrieval left it.
\<close>

theorem logUsage_flat_credit:
  assumes "users db userId = Some a" and "True \<notin> set (take 3 (faults db))"
  shows "((plan a = asc ''free'' \<or> plan a = asc ''basic'') \<and> credits a > 0 \<longrightarrow>
            users (logUsage db userId prov tokens)
              = (users db)(userId \<mapsto> a\<lparr>credits := credits a - 1\<rparr>)
            \<and> api_logs (logUsage db userId prov tokens) = api_logs db @ [usage_entry userId])
       \<and> (plan a = asc ''premium'' \<or> plan a = asc ''unlimited'' \<longrightarrow>
            users (logUsage db userId prov tokens) = users db
            \<and> api_logs (logUsage db userId prov tokens) = api_logs db @ [usage_entry userId])
       \<and> logUsage db userId prov tokens = logUsage db userId prov' tokens'
       \<and> (provider_call env (selectProvider message mode)
              (request_context w message mode history) = Some (Inr response)
            \<and> userId \<noteq> 0 \<and> db = snd (searchKnowledge (store w) message mode) \<longrightarrow>
            store (snd (generateResponse env w message mode (Some userId) history))
              = logUsage db userId prov tokens)"
proof (intro conjI impI)
  assume h: "(plan a = asc ''free'' \<or> plan a = asc ''basic'') \<and> credits a > 0"
  then have p: "plan a = asc ''free'' \<or> plan a = asc ''basic''" and c: "credits a > 0"
    by blast+
  show "users (logUsage db userId prov tokens)
          = (users db)(userId \<mapsto> a\<lparr>credits := credits a - 1\<rparr>)"
    by (rule logUsage_charged(1)[OF assms p c])
  show "api_logs (logUsage db userId prov tokens) = api_logs db @ [usage_entry userId]"
    by (rule logUsage_charged(2)[OF assms p c])
next
  assume "plan a = asc ''premium'' \<or> plan a = asc ''unlimited''"
  then have n: "\<not> ((plan a = asc ''free'' \<or> plan a = asc ''basic'') \<and> credits a > 0)"
    using plan_names_differ by auto
  show "users (logUsage db userId prov tokens) = users db"
    by (rule logUsage_not_charged(1)[OF assms n])
  show "api_logs (logUsage db userId prov tokens) = api_logs db @ [usage_entry userId]"
    by (rule logUsage_not_charged(2)[OF assms n])
next
  show "logUsage db userId prov tokens = logUsage db userId prov' tokens'"
    by (rule logUsage_ignores_tokens)
next
  assume g: "provider_call env (selectProvider message mode)
      (request_context w message mode history) = Some (Inr response)
    \<and> userId \<noteq> 0 \<and> db = snd (searchKnowledge (store w) message mode)"
  then have "callAIProvider env (selectProvider message mode)
      (request_context w message mode history) = Some response"
    by (simp add: callAIProvider_success)
  then have "store (snd (generateResponse env w message mode (Some userId) history))
      = logUsage db userId (selectProvider message mode)
          (tokens_or_default (resp_tokensUsed response))"
    using g by (simp add: generateResponse_store)
  also have "\<dots> = logUsage db userId prov tokens"
    by (rule logUsage_ignores_tokens)
  finally show "store (snd (generateResponse env w message mode (Some userId) history))
      = logUsage db userId prov tokens" .
qed

theorem logUsage_flat_credit_witness:
  "users example_store 1 = Some \<lparr>plan = asc ''free'', credits = 3\<rparr>
   \<and> True \<notin> set (take 3 (faults example_store))
   \<and> users (logUsage example_store 1 (asc ''openai'') (JSNumber (Finite 150))) 1
       = Some \<lparr>plan = asc ''free'', credits = 2\<rparr>
   \<and> api_logs (logUsage example_store 1 (asc ''openai'') (JSNumber (Finite 150))) = [usage_entry 1]
   \<and> users example_store 2 = Some \<lparr>plan = asc ''premium'', credits = 9999\<rparr>
   \<and> users (logUsage example_store 2 (asc ''claude'') (JSNumber (Finite 180))) 2
       = Some \<lparr>plan = asc ''premium'', credits = 9999\<rparr>
   \<and> api_logs (logUsage example_store 2 (asc ''claude'') (JSNumber (Finite 180))) = [usage_entry 2]
   \<and> provider_call answering_environment (selectProvider (asc ''oi'') Consulta)
        (request_context example_world (asc ''oi'') Consulta 0)
       = Some (Inr \<lparr>resp_content = JSString (asc ''ok''),
                  resp_tokensUsed = JSNumber (Finite 0)\<rparr>)
   \<and> users (store (snd (generateResponse answering_environment example_world (asc ''oi'')
        Consulta (Some 1) 0))) 1 = Some \<lparr>plan = asc ''free'', credits = 2\<rparr>
   \<and> api_logs (store (snd (generateResponse answering_environment example_world (asc ''oi'')
        Consulta (Some 1) 0))) = [usage_entry 1]"
proof -
  let ?db = "snd (searchKnowledge (store example_world) (asc ''oi'') Consulta)"
  let ?response = "\<lparr>resp_content = JSString (asc ''ok''), resp_tokensUsed = JSNumber (Finite 0)\<rparr>"
  note free = logUsage_flat_credit [OF example_user_1 example_no_faults,
      where prov = "asc ''openai''" and tokens = "JSNumber (Finite 150)", THEN conjunct1]
  note premium = logUsage_flat_credit [OF example_user_2 example_no_faults,
      where prov = "asc ''claude''" and tokens = "JSNumber (Finite 180)", THEN conjunct2, THEN conjunct1]
  note run = logUsage_flat_credit [OF example_retrieval_store(1,2),
      where prov = "asc ''openai''" and tokens = "JSNumber (Finite 100)" and env = answering_environment
        and w = example_world and message = "asc ''oi''" and mode = Consulta and history = 0
        and response = ?response]
  have call: "provider_call answering_environment (selectProvider (asc ''oi'') Consulta)
        (request_context example_world (asc ''oi'') Consulta 0) = Some (Inr ?response)"
    by (simp add: selectProvider_oi answering_environment_call)
  have f: "users (logUsage example_store 1 (asc ''openai'') (JSNumber (Finite 150))) 1
       = Some \<lparr>plan = asc ''free'', credits = 2\<rparr>"
    "api_logs (logUsage example_store 1 (asc ''openai'') (JSNumber (Finite 150))) = [usage_entry 1]"
    using free by (simp_all add: example_store_def)
  have p: "users (logUsage example_store 2 (asc ''claude'') (JSNumber (Finite 180))) 2
       = Some \<lparr>plan = asc ''premium'', credits = 9999\<rparr>"
    "api_logs (logUsage example_store 2 (asc ''claude'') (JSNumber (Finite 180))) = [usage_entry 2]"
    using premium by (simp_all add: example_store_def)
  have s: "store (snd (generateResponse answering_environment example_world (asc ''oi'')
        Consulta (Some 1) 0)) = logUsage ?db 1 (asc ''openai'') (JSNumber (Finite 100))"
    using run [THEN conjunct2, THEN conjunct2, THEN conjunct2] call by simp
  have g: "users (logUsage ?db 1 (asc ''openai'') (JSNumber (Finite 100))) 1
       = Some \<lparr>plan = asc ''free'', credits = 2\<rparr>"
    "api_logs (logUsage ?db 1 (asc ''openai'') (JSNumber (Finite 100))) = [usage_entry 1]"
    using run [THEN conjunct1] example_retrieval_store by simp_all
  show ?thesis
    using example_user_1 example_user_2 example_no_faults call f p g
    by (simp only: s simp_thms)
qed

section \<open>The assembled context\<close>

text \<open>
  C4. The text \<open>buildContext\<close> returns is the one the construction order describes. It
  ends with the user's message, a blank line and the marker \<open>Resposta:\<close>. The knowledge
  section is there exactly when the knowledge list is not empty, the conversation section
  exactly when the history is not empty, and the turns it lists are the last five of the
  history (all of them when there are fewer), in the order of the history.
\<close>

theorem buildContext_sections:
  "fst (buildContext hp message mode knowledge history)
     = assembled_context message mode knowledge (arrays hp history)
   \<and> (\<exists>before. fst (buildContext hp message mode knowledge history)
          = before @ message @ [10, 10] @ response_marker)
   \<and> (knowledge_section knowledge \<noteq> [] \<longleftrightarrow> knowledge \<noteq> [])
   \<and> (history_section (arrays hp history) \<noteq> [] \<longleftrightarrow> arrays hp history \<noteq> [])
   \<and> length (last_turns 5 (arrays hp history)) = min 5 (length (arrays hp history))
   \<and> (\<exists>older. arrays hp history = older @ last_turns 5 (arrays hp history))"
proof (intro conjI)
  show t: "fst (buildContext hp message mode knowledge history)
     = assembled_context message mode knowledge (arrays hp history)"
    by (rule buildContext_text)
  show "\<exists>before. fst (buildContext hp message mode knowledge history)
          = before @ message @ [10, 10] @ response_marker"
    unfolding t assembled_context_def
    by (metis append.assoc)
  show "knowledge_section knowledge \<noteq> [] \<longleftrightarrow> knowledge \<noteq> []"
    by (simp add: knowledge_section_def asc_def)
  show "history_section (arrays hp history) \<noteq> [] \<longleftrightarrow> arrays hp history \<noteq> []"
    by (simp add: history_section_def asc_def)
  show "length (last_turns 5 (arrays hp history)) = min 5 (length (arrays hp history))"
    by (simp add: last_turns_def)
  show "\<exists>older. arrays hp history = older @ last_turns 5 (arrays hp history)"
    unfolding last_turns_drop
    by (metis append_take_drop_id)
qed

section \<open>Keywords\<close>

text \<open>
  C5, as stated, fails: on the empty string the result is not the empty sequence.
\<close>

theorem extractKeywords_empty_counterexample: "extractKeywords [] \<noteq> []"
  by (simp add: extractKeywords_def toLowerCase_def is_keyword_def financialTerms_def asc_def)

text \<open>
  C5, amended. On the empty string \<open>extractKeywords\<close> returns the sequence that holds the
  empty string and nothing else: the split of the empty string is one empty piece, and the
  filter keeps it because every vocabulary term includes the empty string. The function
  returns a sequence for every string: none of its steps can raise.
\<close>

theorem extractKeywords_empty_string:
  "extractKeywords [] = [[]] \<and> (\<exists>keywords. extractKeywords text = keywords)"
  by (simp add: extractKeywords_def toLowerCase_def is_keyword_def financialTerms_def asc_def)

text \<open>
  C6, as stated, fails: the tokens are cut from the lower-cased text, so the result for
  \<open>Qual a tendencia do WINFUT hoje\<close> does not hold the upper-case token \<open>WINFUT\<close>.
\<close>

theorem extractKeywords_WINFUT_counterexample:
  "asc ''WINFUT'' \<notin> set (extractKeywords tendencia_question)"
  by (simp add: extractKeywords_example asc_def)

text \<open>
  C6, amended. For that question the result holds the lower-cased token \<open>winfut\<close> and the
  token \<open>tendencia\<close> (with its circumflex), has no duplicates and at most 10 entries.
\<close>

theorem extractKeywords_tendencia_question:
  "asc ''winfut'' \<in> set (extractKeywords tendencia_question)
   \<and> asc ''tend'' @ [234] @ asc ''ncia'' \<in> set (extractKeywords tendencia_question)
   \<and> distinct (extractKeywords tendencia_question)
   \<and> length (extractKeywords tendencia_question) \<le> 10"
  by (simp add: extractKeywords_example asc_def)

section \<open>Knowledge retrieval\<close>

text \<open>
  C7. \<open>searchKnowledge\<close> returns at most 5 snippets, and when the store rejects the
  query it returns the empty sequence: the failure is caught, not passed on, and the
  request goes on with the context built from no knowledge.
\<close>

theorem searchKnowledge_bounded_and_safe:
  "length (fst (searchKnowledge db query mode)) \<le> 5
   \<and> (fst (next_fault db) \<longrightarrow> fst (searchKnowledge db query mode) = [])
   \<and> (fst (next_fault (store w)) \<longrightarrow>
        request_context w message mode' history
          = fst (buildContext (heap w) message mode' [] history))"
proof (intro conjI impI)
  show "length (fst (searchKnowledge db query mode)) \<le> 5"
    by (auto simp: searchKnowledge_def database_all_knowledge_def Let_def
        knowledge_query_length split: prod.splits bool.splits)
  show "fst (searchKnowledge db query mode) = []" if "fst (next_fault db)"
    using that by (rule searchKnowledge_store_failure)
  show "request_context w message mode' history
          = fst (buildContext (heap w) message mode' [] history)"
    if "fst (next_fault (store w))"
    using searchKnowledge_store_failure[OF that] by (simp add: request_context_def)
qed

theorem searchKnowledge_bounded_and_safe_witness:
  "fst (next_fault failing_store)
   \<and> fst (searchKnowledge failing_store (asc ''winfut'') Consulta) = []
   \<and> length (fst (searchKnowledge failing_store (asc ''winfut'') Consulta)) \<le> 5
   \<and> fst (next_fault (store (example_world\<lparr>store := failing_store\<rparr>)))
   \<and> request_context (example_world\<lparr>store := failing_store\<rparr>) (asc ''winfut'') Consulta 0
       = fst (buildContext example_heap (asc ''winfut'') Consulta [] 0)"
  using searchKnowledge_bounded_and_safe [where db = failing_store and query = "asc ''winfut''"
      and mode = Consulta and w = "example_world\<lparr>store := failing_store\<rparr>"
      and message = "asc ''winfut''" and mode' = Consulta and history = 0]
  by (simp add: failing_store_def next_fault_def example_world_def)

section \<open>Two runs\<close>

text \<open>
  C8. Two runs of \<open>generateResponse\<close> on the same arguments and the same world, under
  any two environments (the providers may answer in one and fail in the other, and the
  random numbers may differ), return the same provider id and the same model name.
\<close>

theorem generateResponse_two_runs:
  assumes "0 \<le> math_random env1" and "math_random env1 < 1"
    and "0 \<le> math_random env2" and "math_random env2 < 1"
  shows "provider (fst (generateResponse env1 w message mode userId history))
           = provider (fst (generateResponse env2 w message mode userId history))
       \<and> model (fst (generateResponse env1 w message mode userId history))
           = model (fst (generateResponse env2 w message mode userId history))"
proof -
  have "Some (model (fst (generateResponse env1 w message mode userId history)))
      = Some (model (fst (generateResponse env2 w message mode userId history)))"
    using generateResponse_provider_model(2)[OF assms(1,2)]
      generateResponse_provider_model(2)[OF assms(3,4)] by simp
  then show ?thesis
    using generateResponse_provider_model(1)[OF assms(1,2)]
      generateResponse_provider_model(1)[OF assms(3,4)] by simp
qed

theorem generateResponse_two_runs_witness:
  "0 \<le> math_random failing_environment \<and> math_random failing_environment < 1
   \<and> 0 \<le> math_random answering_environment \<and> math_random answering_environment < 1
   \<and> provider (fst (generateResponse failing_environment example_world (asc ''oi'') Consulta
         (Some 1) 0))
       = provider (fst (generateResponse answering_environment example_world (asc ''oi'')
           Consulta (Some 1) 0))
   \<and> model (fst (generateResponse failing_environment example_world (asc ''oi'') Consulta
         (Some 1) 0))
       = model (fst (generateResponse answering_environment example_world (asc ''oi'')
           Consulta (Some 1) 0))"
  using generateResponse_two_runs [OF failing_environment_random answering_environment_random,
      where w = example_world and message = "asc ''oi''" and mode = Consulta
        and userId = "Some 1" and history = 0]
    failing_environment_random answering_environment_random
  by simp

section \<open>The history is only read\<close>

text \<open>
  C9. The history array the caller passes is left as it was by \<open>buildContext\<close> and by
  \<open>generateResponse\<close> as a whole; and the context depends on the history through its last
  five turns only: two histories with the same last five turns give the same context.
\<close>

theorem history_read_only:
  assumes "history < next_free (heap w)"
  shows "arrays (snd (buildContext (heap w) message mode knowledge history)) history
           = arrays (heap w) history
       \<and> arrays (heap (snd (generateResponse env w message mode userId history))) history
           = arrays (heap w) history
       \<and> (last_turns 5 (arrays (heap w) history) = last_turns 5 (arrays hp' history')
          \<longrightarrow> fst (buildContext (heap w) message mode knowledge history)
              = fst (buildContext hp' message mode knowledge history'))"
proof (intro conjI impI)
  show "arrays (snd (buildContext (heap w) message mode knowledge history)) history
           = arrays (heap w) history"
    by (rule buildContext_frame[OF assms])
  show "arrays (heap (snd (generateResponse env w message mode userId history))) history
           = arrays (heap w) history"
    unfolding generateResponse_heap by (rule buildContext_frame[OF assms])
next
  assume "last_turns 5 (arrays (heap w) history) = last_turns 5 (arrays hp' history')"
  then have "history_section (arrays (heap w) history) = history_section (arrays hp' history')"
    by (rule history_section_window)
  then show "fst (buildContext (heap w) message mode knowledge history)
              = fst (buildContext hp' message mode knowledge history')"
    by (simp add: buildContext_text assembled_context_def)
qed

theorem history_read_only_witness:
  "0 < next_free (heap example_world)
   \<and> arrays (heap (snd (generateResponse failing_environment example_world (asc ''oi'')
        Consulta (Some 1) 0))) 0 = six_turns
   \<and> arrays (snd (buildContext (heap example_world) (asc ''oi'') Consulta [] 0)) 0 = six_turns
   \<and> last_turns 5 (arrays (heap example_world) 0) = last_turns 5 (arrays example_heap 1)
   \<and> arrays (heap example_world) 0 \<noteq> arrays example_heap 1
   \<and> fst (buildContext (heap example_world) (asc ''oi'') Consulta [] 0)
       = fst (buildContext example_heap (asc ''oi'') Consulta [] 1)"
  using history_read_only [where w = example_world and history = 0 and env = failing_environment
      and message = "asc ''oi''" and mode = Consulta and userId = "Some 1"
      and knowledge = "[]" and hp' = example_heap and history' = 1]
  by (simp add: example_world_def example_heap_def six_turns_def last_turns_def asc_def)

section \<open>Token counts\<close>

text \<open>
  C10, as stated, fails. The count a provider reports is handed on unchecked whenever it
  converts to true: in \<open>negative_count_environment\<close> OpenAI reports -5 tokens, and the
  result of \<open>generateResponse\<close> reports -5, which is not a strictly positive integer.
\<close>

theorem tokensUsed_negative_counterexample:
  "provider_call negative_count_environment (selectProvider (asc ''oi'') Consulta)
      (request_context example_world (asc ''oi'') Consulta 0)
     = Some (Inr \<lparr>resp_content = JSString (asc ''ok''),
                  resp_tokensUsed = JSNumber (Finite (- 5))\<rparr>)
   \<and> tokensUsed (fst (generateResponse negative_count_environment example_world (asc ''oi'')
        Consulta None 0)) = JSNumber (Finite (- 5))
   \<and> \<not> positive_integer (tokensUsed (fst (generateResponse negative_count_environment
        example_world (asc ''oi'') Consulta None 0)))"
proof -
  have c: "provider_call negative_count_environment (selectProvider (asc ''oi'') Consulta)
      (request_context example_world (asc ''oi'') Consulta 0)
     = Some (Inr \<lparr>resp_content = JSString (asc ''ok''),
                  resp_tokensUsed = JSNumber (Finite (- 5))\<rparr>)"
    by (simp add: selectProvider_oi negative_count_environment_call)
  then have "callAIProvider negative_count_environment (selectProvider (asc ''oi'') Consulta)
      (request_context example_world (asc ''oi'') Consulta 0)
     = Some \<lparr>resp_content = JSString (asc ''ok''), resp_tokensUsed = JSNumber (Finite (- 5))\<rparr>"
    by (rule callAIProvider_success)
  then have "tokensUsed (fst (generateResponse negative_count_environment example_world
      (asc ''oi'') Consulta None 0)) = JSNumber (Finite (- 5))"
    by (simp add: generateResponse_answer(3) tokens_or_default_def)
  with c show ?thesis by simp
qed

text \<open>
  C10, amended. The token count of every result of \<open>generateResponse\<close> converts to true,
  so it is never 0 (nor undefined, null, NaN or the empty string). When the provider
  answers with a count that converts to false, such as a missing count or the count 0,
  the result reports 100; when it answers with any other count, the result reports that
  count as it is, whether or not it is a positive integer; when the provider call fails
  the result reports the 150 or 180 of a mock response; and every entry of the fallback
  table reports 50.
\<close>

theorem tokensUsed_never_zero:
  "truthy (tokensUsed (fst (generateResponse env w message mode userId history)))
   \<and> tokensUsed (fst (generateResponse env w message mode userId history)) \<noteq> JSNumber (Finite 0)
   \<and> (provider_call env (selectProvider message mode) (request_context w message mode history)
         = Some (Inr response)
       \<and> \<not> truthy (resp_tokensUsed response)
       \<longrightarrow> tokensUsed (fst (generateResponse env w message mode userId history))
           = JSNumber (Finite 100))
   \<and> (provider_call env (selectProvider message mode) (request_context w message mode history)
         = Some (Inr response)
       \<and> truthy (resp_tokensUsed response)
       \<longrightarrow> tokensUsed (fst (generateResponse env w message mode userId history))
           = resp_tokensUsed response)
   \<and> (provider_call env (selectProvider message mode) (request_context w message mode history)
         = Some (Inl error)
       \<and> 0 \<le> math_random env \<and> math_random env < 1
       \<longrightarrow> tokensUsed (fst (generateResponse env w message mode userId history))
             = JSNumber (Finite 150)
         \<or> tokensUsed (fst (generateResponse env w message mode userId history))
             = JSNumber (Finite 180))
   \<and> tokensUsed (getFallbackResponse mode) = JSNumber (Finite 50)
   \<and> \<not> truthy JSUndefined \<and> \<not> truthy (JSNumber (Finite 0))"
proof (intro conjI impI)
  show t: "truthy (tokensUsed (fst (generateResponse env w message mode userId history)))"
    by (rule generateResponse_tokens_truthy)
  show "tokensUsed (fst (generateResponse env w message mode userId history))
      \<noteq> JSNumber (Finite 0)"
    using t by auto
next
  assume a: "provider_call env (selectProvider message mode)
      (request_context w message mode history) = Some (Inr response)
    \<and> \<not> truthy (resp_tokensUsed response)"
  then have "callAIProvider env (selectProvider message mode)
      (request_context w message mode history) = Some response"
    by (simp add: callAIProvider_success)
  then have "tokensUsed (fst (generateResponse env w message mode userId history))
      = tokens_or_default (resp_tokensUsed response)"
    by (rule generateResponse_answer(3))
  with a show "tokensUsed (fst (generateResponse env w message mode userId history))
      = JSNumber (Finite 100)"
    by (simp add: tokens_or_default_def)
next
  assume a: "provider_call env (selectProvider message mode)
      (request_context w message mode history) = Some (Inr response)
    \<and> truthy (resp_tokensUsed response)"
  then have "callAIProvider env (selectProvider message mode)
      (request_context w message mode history) = Some response"
    by (simp add: callAIProvider_success)
  then have "tokensUsed (fst (generateResponse env w message mode userId history))
      = tokens_or_default (resp_tokensUsed response)"
    by (rule generateResponse_answer(3))
  with a show "tokensUsed (fst (generateResponse env w message mode userId history))
      = resp_tokensUsed response"
    by (simp add: tokens_or_default_def)
next
  assume a: "provider_call env (selectProvider message mode)
      (request_context w message mode history) = Some (Inl error)
    \<and> 0 \<le> math_random env \<and> math_random env < 1"
  then have "callAIProvider env (selectProvider message mode)
        (request_context w message mode history)
           = Some \<lparr>resp_content = JSString mock_content_0,
                   resp_tokensUsed = JSNumber (Finite 150)\<rparr>
       \<or> callAIProvider env (selectProvider message mode)
        (request_context w message mode history)
           = Some \<lparr>resp_content = JSString mock_content_1,
                   resp_tokensUsed = JSNumber (Finite 180)\<rparr>"
    using callAIProvider_failure by blast
  then show "tokensUsed (fst (generateResponse env w message mode userId history))
        = JSNumber (Finite 150)
      \<or> tokensUsed (fst (generateResponse env w message mode userId history))
        = JSNumber (Finite 180)"
    by (auto simp: generateResponse_answer(3) tokens_or_default_def)
next
  show "tokensUsed (getFallbackResponse mode) = JSNumber (Finite 50)"
    by (simp add: getFallbackResponse_def)
  show "\<not> truthy JSUndefined" by simp
  show "\<not> truthy (JSNumber (Finite 0))" by simp
qed

theorem tokensUsed_never_zero_witness:
  "provider_call answering_environment (selectProvider (asc ''oi'') Consulta)
      (request_context example_world (asc ''oi'') Consulta 0)
     = Some (Inr \<lparr>resp_content = JSString (asc ''ok''),
                  resp_tokensUsed = JSNumber (Finite 0)\<rparr>)
   \<and> \<not> truthy (JSNumber (Finite 0))
   \<and> tokensUsed (fst (generateResponse answering_environment example_world (asc ''oi'')
        Consulta (Some 1) 0)) = JSNumber (Finite 100)
   \<and> provider_call negative_count_environment (selectProvider (asc ''oi'') Consulta)
      (request_context example_world (asc ''oi'') Consulta 0)
     = Some (Inr \<lparr>resp_content = JSString (asc ''ok''),
                  resp_tokensUsed = JSNumber (Finite (- 5))\<rparr>)
   \<and> truthy (JSNumber (Finite (- 5)))
   \<and> tokensUsed (fst (generateResponse negative_count_environment example_world (asc ''oi'')
        Consulta (Some 1) 0)) = JSNumber (Finite (- 5))
   \<and> provider_call answering_environment (selectProvider (asc ''oi'') Daytrade)
      (request_context example_world (asc ''oi'') Daytrade 0)
     = Some (Inr \<lparr>resp_content = JSString (asc ''ok''), resp_tokensUsed = JSNumber NaN\<rparr>)
   \<and> \<not> truthy (JSNumber NaN)
   \<and> tokensUsed (fst (generateResponse answering_environment example_world (asc ''oi'')
        Daytrade (Some 1) 0)) = JSNumber (Finite 100)
   \<and> provider_call failing_environment (selectProvider (asc ''oi'') Consulta)
      (request_context example_world (asc ''oi'') Consulta 0) = Some (Inl RequestError)
   \<and> 0 \<le> math_random failing_environment \<and> math_random failing_environment < 1
   \<and> (tokensUsed (fst (generateResponse failing_environment example_world (asc ''oi'')
        Consulta (Some 1) 0)) = JSNumber (Finite 150)
      \<or> tokensUsed (fst (generateResponse failing_environment example_world (asc ''oi'')
        Consulta (Some 1) 0)) = JSNumber (Finite 180))"
proof -
  note missing = tokensUsed_never_zero [where env = answering_environment
      and w = example_world and message = "asc ''oi''" and mode = Daytrade
      and userId = "Some 1" and history = 0
      and response = "\<lparr>resp_content = JSString (asc ''ok''),
        resp_tokensUsed = JSNumber NaN\<rparr>",
      THEN conjunct2, THEN conjunct2, THEN conjunct1]
  have m: "provider_call answering_environment (selectProvider (asc ''oi'') Daytrade)
      (request_context example_world (asc ''oi'') Daytrade 0)
     = Some (Inr \<lparr>resp_content = JSString (asc ''ok''), resp_tokensUsed = JSNumber NaN\<rparr>)"
    by (simp add: selectProvider_oi_daytrade answering_environment_claude_call)
  note zero = tokensUsed_never_zero [where env = answering_environment and w = example_world
      and message = "asc ''oi''" and mode = Consulta and userId = "Some 1" and history = 0
      and response = "\<lparr>resp_content = JSString (asc ''ok''),
        resp_tokensUsed = JSNumber (Finite 0)\<rparr>",
      THEN conjunct2, THEN conjunct2, THEN conjunct1]
  note negative = tokensUsed_never_zero [where env = negative_count_environment
      and w = example_world and message = "asc ''oi''" and mode = Consulta
      and userId = "Some 1" and history = 0
      and response = "\<lparr>resp_content = JSString (asc ''ok''),
        resp_tokensUsed = JSNumber (Finite (- 5))\<rparr>",
      THEN conjunct2, THEN conjunct2, THEN conjunct2, THEN conjunct1]
  note failure = tokensUsed_never_zero [where env = failing_environment
      and w = example_world and message = "asc ''oi''" and mode = Consulta
      and userId = "Some 1" and history = 0 and error = RequestError,
      THEN conjunct2, THEN conjunct2, THEN conjunct2, THEN conjunct2, THEN conjunct1]
  have a: "provider_call answering_environment (selectProvider (asc ''oi'') Consulta)
      (request_context example_world (asc ''oi'') Consulta 0)
     = Some (Inr \<lparr>resp_content = JSString (asc ''ok''),
                  resp_tokensUsed = JSNumber (Finite 0)\<rparr>)"
    by (simp add: selectProvider_oi answering_environment_call)
  have n: "provider_call negative_count_environment (selectProvider (asc ''oi'') Consulta)
      (request_context example_world (asc ''oi'') Consulta 0)
     = Some (Inr \<lparr>resp_content = JSString (asc ''ok''),
                  resp_tokensUsed = JSNumber (Finite (- 5))\<rparr>)"
    by (simp add: selectProvider_oi negative_count_environment_call)
  have f: "provider_call failing_environment (selectProvider (asc ''oi'') Consulta)
      (request_context example_world (asc ''oi'') Consulta 0) = Some (Inl RequestError)"
    by (rule failing_environment_call)
  show ?thesis
    using zero negative missing failure a n m f failing_environment_random by simp
qed

end
